theory Spec2Isabelle
  imports Complex_Main
begin

section \<open>The collage layout of \<open>CollageMonde\<close> (FullScreenCarousel.tsx)\<close>

text \<open>
  JavaScript numbers are modelled as real numbers: rounding, infinities and NaN of the
  IEEE doubles are abstracted away. A field that can be \<open>undefined\<close> is an \<open>option\<close>.
\<close>

subsection \<open>Constants: \<open>SIMULATION_CONFIG\<close>\<close>

definition nodeSize_album :: real where "nodeSize_album = 50"
definition nodeSize_artist :: real where "nodeSize_artist = 60"
definition nodeSize_title :: real where "nodeSize_title = 200"
definition nodeSize_hover :: real where "nodeSize_hover = 70"
definition nodeSize_maxDelta :: real where "nodeSize_maxDelta = 20"
definition nodeSize_minAlbum :: real where "nodeSize_minAlbum = 20"
definition nodeSize_minArtist :: real where "nodeSize_minArtist = 25"
definition nodeSize_holePadding :: real where "nodeSize_holePadding = 2"
definition nodeSize_clipPadding :: real where "nodeSize_clipPadding = 2"

definition forces_charge :: real where "forces_charge = 0"
definition forces_collide :: real where "forces_collide = 1"
definition forces_center :: real where "forces_center = 5 / 1000"
definition forces_x :: real where "forces_x = 2 / 1000"
definition forces_y :: real where "forces_y = 2 / 100"

definition centerHole_radius :: real where "centerHole_radius = 0"
definition centerHole_strength :: real where "centerHole_strength = 2 / 100"

definition container_width :: real where "container_width = 1280"
definition container_height :: real where "container_height = 960"

definition performance_alphaDecay :: real where "performance_alphaDecay = 228 / 10000"
definition performance_velocityDecay :: real where "performance_velocityDecay = 1 / 10"
definition performance_alphaTarget :: real where "performance_alphaTarget = 3 / 10"
definition performance_collisionIterations :: nat where "performance_collisionIterations = 3"
definition performance_restartAlpha :: real where "performance_restartAlpha = 1 / 10"

definition ANIMATION_DURATION :: real where "ANIMATION_DURATION = 500"
definition ENTRANCE_ANIMATION_DELAY :: real where "ENTRANCE_ANIMATION_DELAY = 100"
definition ENTRANCE_ANIMATION_DURATION :: real where "ENTRANCE_ANIMATION_DURATION = 800"
definition OPACITY_ANIMATION_DURATION :: real where "OPACITY_ANIMATION_DURATION = 300"
definition SUBTITLE_DELAY_OFFSET :: real where "SUBTITLE_DELAY_OFFSET = 200"

lemmas config_defs =
  nodeSize_album_def nodeSize_artist_def nodeSize_title_def nodeSize_hover_def
  nodeSize_maxDelta_def nodeSize_minAlbum_def nodeSize_minArtist_def
  nodeSize_holePadding_def nodeSize_clipPadding_def
  forces_charge_def forces_collide_def forces_center_def forces_x_def forces_y_def
  centerHole_radius_def centerHole_strength_def container_width_def container_height_def
  performance_alphaDecay_def performance_velocityDecay_def performance_alphaTarget_def
  performance_collisionIterations_def performance_restartAlpha_def

subsection \<open>The catalog (GroupContext) and the nodes\<close>

text \<open>
  \<open>Album.id\<close> is a number and \<open>Group.id\<close> a string. Only the fields the collage
  reads are kept. JavaScript's conversion of a number to a string, which the template
  literal and \<open>album.id.toString()\<close> both apply, is a built-in of the language: it is
  the parameter \<open>toString\<close> of the functions that build album nodes.
\<close>

record Album =
  album_id :: real
  album_title :: string
  album_src :: string
  album_alt :: string

record Group =
  group_id :: string
  group_name :: string
  group_albums :: "Album list"

datatype FilterType = Tous | FilterAlbum | FilterArtist

datatype NodeType = TypeAlbum | TypeArtist | TypeTitle

record Node =
  node_id :: string
  node_src :: string
  node_alt :: string
  node_type :: NodeType
  groupName :: "string option"
  groupId :: "string option"
  albumId :: "string option"
  node_r :: real
  originalR :: "real option"
  node_group :: string
  node_x :: "real option"
  node_y :: "real option"
  node_vx :: "real option"
  node_vy :: "real option"
  node_fx :: "real option"
  node_fy :: "real option"
  node_index :: "nat option"

datatype error = TypeError | SyntaxError

definition createTitleNode :: Node where
  "createTitleNode =
     \<lparr> node_id = ''title-center'', node_src = '''', node_alt = ''Titre central'',
       node_type = TypeTitle, groupName = Some ''Nous ne sommes qu'un'',
       groupId = None, albumId = None,
       node_r = nodeSize_title, originalR = None, node_group = ''center'',
       node_x = Some (container_width / 2), node_y = Some (container_height / 2),
       node_vx = None, node_vy = None,
       node_fx = Some (container_width / 2), node_fy = Some (container_height / 2),
       node_index = None \<rparr>"

text \<open>
  \<open>Math.random()\<close> is the last argument \<open>u\<close> of the two constructors: the value of the
  one draw each of them makes, a number with \<open>0 \<le> u < 1\<close>.
\<close>

definition randomDelta :: "real \<Rightarrow> real" where
  "randomDelta u = (u - 1 / 2) * 2 * nodeSize_maxDelta"

definition createAlbumNode ::
  "(real \<Rightarrow> string) \<Rightarrow> Album \<Rightarrow> Group \<Rightarrow> real \<Rightarrow> Node" where
  "createAlbumNode toString album grp u =
     (let baseSize = nodeSize_album
      in \<lparr> node_id = ''album-'' @ toString (album_id album),
           node_src = album_src album, node_alt = album_alt album,
           node_type = TypeAlbum, groupName = Some (group_name grp),
           groupId = Some (group_id grp),
           albumId = Some (toString (album_id album)),
           node_r = max nodeSize_minAlbum (baseSize + randomDelta u),
           originalR = None, node_group = group_id grp,
           node_x = None, node_y = None, node_vx = None, node_vy = None,
           node_fx = None, node_fy = None, node_index = None \<rparr>)"

text \<open>\<open>group.albums[0].src\<close> throws a TypeError when the group has no album.\<close>

definition createArtistNode :: "Group \<Rightarrow> real \<Rightarrow> error + Node" where
  "createArtistNode grp u =
     (let baseSize = nodeSize_artist
      in case group_albums grp of
           [] \<Rightarrow> Inl TypeError
         | a0 # _ \<Rightarrow>
             Inr \<lparr> node_id = ''artist-'' @ group_id grp,
                   node_src = album_src a0,
                   node_alt = group_name grp @ '' artist photo'',
                   node_type = TypeArtist, groupName = Some (group_name grp),
                   groupId = Some (group_id grp), albumId = None,
                   node_r = max nodeSize_minArtist (baseSize + randomDelta u),
                   originalR = None, node_group = group_id grp,
                   node_x = None, node_y = None, node_vx = None, node_vy = None,
                   node_fx = None, node_fy = None, node_index = None \<rparr>)"

subsection \<open>Node-set construction: the \<open>data\<close> memo of \<open>CollageMonde\<close>\<close>

text \<open>
  The draws of \<open>Math.random()\<close> are a sequence \<open>rnd\<close>; the counter beside the item
  list says how many draws have been made, so the next constructor gets \<open>rnd k\<close>.
\<close>

fun push_albums ::
  "(real \<Rightarrow> string) \<Rightarrow> (nat \<Rightarrow> real) \<Rightarrow> Group \<Rightarrow> Album list \<Rightarrow> Node list \<times> nat
     \<Rightarrow> Node list \<times> nat" where
  "push_albums toString rnd grp [] (items, k) = (items, k)"
| "push_albums toString rnd grp (album # rest) (items, k) =
     push_albums toString rnd grp rest
       (items @ [createAlbumNode toString album grp (rnd k)], Suc k)"

text \<open>The body of \<open>groups.forEach\<close>, for one group.\<close>

definition push_group ::
  "(real \<Rightarrow> string) \<Rightarrow> (nat \<Rightarrow> real) \<Rightarrow> FilterType \<Rightarrow> Group \<Rightarrow> Node list \<times> nat
     \<Rightarrow> error + Node list \<times> nat" where
  "push_group toString rnd flt grp st =
     (let (items, k) =
            (if flt = Tous \<or> flt = FilterAlbum
             then push_albums toString rnd grp (group_albums grp) st else st)
      in if (flt = Tous \<or> flt = FilterArtist) \<and> length (group_albums grp) > 0
         then (case createArtistNode grp (rnd k) of
                 Inl e \<Rightarrow> Inl e
               | Inr n \<Rightarrow> Inr (items @ [n], Suc k))
         else Inr (items, k))"

fun push_groups ::
  "(real \<Rightarrow> string) \<Rightarrow> (nat \<Rightarrow> real) \<Rightarrow> FilterType \<Rightarrow> Group list \<Rightarrow> Node list \<times> nat
     \<Rightarrow> error + Node list \<times> nat" where
  "push_groups toString rnd flt [] st = Inr st"
| "push_groups toString rnd flt (grp # rest) st =
     (case push_group toString rnd flt grp st of
        Inl e \<Rightarrow> Inl e
      | Inr st' \<Rightarrow> push_groups toString rnd flt rest st')"

definition data ::
  "(real \<Rightarrow> string) \<Rightarrow> (nat \<Rightarrow> real) \<Rightarrow> Group list \<Rightarrow> FilterType \<Rightarrow> error + Node list" where
  "data toString rnd groups flt =
     (case push_groups toString rnd flt groups ([createTitleNode], 0) of
        Inl e \<Rightarrow> Inl e
      | Inr (items, k) \<Rightarrow> Inr items)"

subsection \<open>Cluster targets: \<open>createClusters\<close>\<close>

record Point =
  pt_x :: real
  pt_y :: real

fun createClusters_forEach ::
  "Group list \<Rightarrow> nat \<Rightarrow> nat \<Rightarrow> real \<Rightarrow> real \<Rightarrow> (string \<rightharpoonup> Point) \<Rightarrow> (string \<rightharpoonup> Point)" where
  "createClusters_forEach [] i numGroups width height clusters = clusters"
| "createClusters_forEach (grp # rest) i numGroups width height clusters =
     (let angle = (real i / real numGroups) * 2 * pi;
          radius = min width height / 4
      in createClusters_forEach rest (Suc i) numGroups width height
           (clusters(group_id grp \<mapsto>
              \<lparr> pt_x = width / 2 + cos angle * radius,
                pt_y = height / 2 + sin angle * radius \<rparr>)))"

definition createClusters :: "Group list \<Rightarrow> real \<Rightarrow> real \<Rightarrow> (string \<rightharpoonup> Point)" where
  "createClusters groups width height =
     createClusters_forEach groups 0 (length groups) width height Map.empty"

subsection \<open>The d3 objects the component drives\<close>

text \<open>
  d3-force, d3-selection, d3-transition and d3-interpolate are libraries, not code of the
  repository. What the component relies on is modelled after their documented behaviour:
  \<^item> \<open>interpolate(a, b)\<close> on two numbers is the function \<open>t \<mapsto> a * (1 - t) + b * t\<close>;
  \<^item> a collision force keeps its radius accessor, its strength, its iteration count and
    the array \<open>radii\<close> of the accessor's values, which it computes from the simulation's
    nodes when it is registered with \<open>simulation.force\<close> and reads while it is applied;
  \<^item> \<open>forceSimulation(nodes)\<close> numbers the nodes, copies \<open>fx, fy\<close> to \<open>x, y\<close>, places a
    node without position on the phyllotaxis spiral, zeroes a missing velocity, and starts
    the stepper with \<open>alpha = 1\<close>;
  \<^item> a transition runs its tween: a function that is called once when the transition
    starts and returns the function called at every frame with the eased time \<open>t\<close>.
  The node initialisation is that of d3-force 2 and 3; the properties below use of it
  only that it leaves the radius alone. Not modelled: the forces' effect on positions
  (the tick itself), the timers that decide when a frame runs, the easing curve, and
  the interruption of one transition by a later one on the same element. A handler
  returns the transitions it schedules, and the properties speak of every frame of
  them, at every time \<open>t\<close>, in every state.
\<close>

definition interpolate :: "real \<Rightarrow> real \<Rightarrow> real \<Rightarrow> real" where
  "interpolate a b t = a * (1 - t) + b * t"

record CollideForce =
  cf_radius :: "Node \<Rightarrow> real"
  cf_strength :: real
  cf_iterations :: nat
  cf_radii :: "real list"

definition forceCollide :: CollideForce where
  "forceCollide = \<lparr> cf_radius = (\<lambda>_. 1), cf_strength = 1, cf_iterations = 1, cf_radii = [] \<rparr>"

datatype Force =
    ForceCenter real real real
  | ForceX "Node \<Rightarrow> real" real
  | ForceY "Node \<Rightarrow> real" real
  | ForceCollide CollideForce
  | ForceManyBody real
  | ForceRadial real real real real

record Simulation =
  sim_alpha :: real
  sim_alphaTarget :: real
  sim_velocityDecay :: real
  sim_running :: bool
  sim_forces :: "string \<rightharpoonup> Force"

fun initializeForce :: "Node list \<Rightarrow> Force \<Rightarrow> Force" where
  "initializeForce nodes (ForceCollide cf) =
     ForceCollide (cf\<lparr> cf_radii := map (cf_radius cf) nodes \<rparr>)"
| "initializeForce nodes f = f"

definition simulation_force :: "string \<Rightarrow> Force \<Rightarrow> Node list \<Rightarrow> Simulation \<Rightarrow> Simulation" where
  "simulation_force name f nodes sim =
     sim\<lparr> sim_forces := (sim_forces sim)(name \<mapsto> initializeForce nodes f) \<rparr>"

definition initializeNode :: "nat \<Rightarrow> Node \<Rightarrow> Node" where
  "initializeNode i node =
     (let n1 = node\<lparr> node_index := Some i \<rparr>;
          n2 = (case node_fx n1 of Some v \<Rightarrow> n1\<lparr> node_x := Some v \<rparr> | None \<Rightarrow> n1);
          n3 = (case node_fy n2 of Some v \<Rightarrow> n2\<lparr> node_y := Some v \<rparr> | None \<Rightarrow> n2);
          n4 = (if node_x n3 = None \<or> node_y n3 = None
                then (let radius = 10 * sqrt (1 / 2 + real i);
                          angle = real i * (pi * (3 - sqrt 5))
                      in n3\<lparr> node_x := Some (radius * cos angle),
                             node_y := Some (radius * sin angle) \<rparr>)
                else n3)
      in if node_vx n4 = None \<or> node_vy n4 = None
         then n4\<lparr> node_vx := Some 0, node_vy := Some 0 \<rparr> else n4)"

definition initializeNodes :: "Node list \<Rightarrow> Node list" where
  "initializeNodes nodes = map (\<lambda>(i, n). initializeNode i n) (enumerate 0 nodes)"

definition forceSimulation :: Simulation where
  "forceSimulation =
     \<lparr> sim_alpha = 1, sim_alphaTarget = 0, sim_velocityDecay = 4 / 10,
       sim_running = True, sim_forces = Map.empty \<rparr>"

subsection \<open>The rendered elements\<close>

record Circle =
  circle_class :: string
  circle_r :: real

datatype CssFilter = FilterNone | Grayscale real

record Image =
  image_href :: string
  image_x :: real
  image_y :: real
  image_width :: real
  image_height :: real
  image_clip_path :: string
  image_filter :: CssFilter

record TextEl =
  text_class :: string
  text_y :: real
  text_font_size :: real
  text_content :: string

datatype Transform = Translate "real option" "real option"

text \<open>A \<open>g.node\<close> element with its children, by kind, in document order.\<close>

record NodeG =
  g_opacity :: real
  g_transform :: "Transform option"
  g_circles :: "Circle list"
  g_images :: "Image list"
  g_texts :: "TextEl list"

text \<open>
  A \<open>clipPath\<close> of \<open>defs\<close> with the radius of its one circle. \<open>clip_r\<close> is the
  attribute \<open>r\<close> of the \<open>clipPath\<close> element itself, which it does not have when it is
  created and which draws nothing.
\<close>

record ClipPath =
  clip_id :: string
  clip_r :: "real option"
  clip_circle_r :: real

text \<open>
  \<open>defs.select(selector)\<close> hands the selector to the browser's \<open>querySelector\<close>, which
  is not code of the repository: it is the parameter \<open>querySelector\<close> of the entrance
  animation. Given the selector and the clip paths under \<open>defs\<close>, it throws a
  \<open>SyntaxError\<close> for a string that is not a selector, or returns the first element
  under \<open>defs\<close> that matches, if there is one: the k-th \<open>clipPath\<close> or its circle.
\<close>

datatype DefsElement = ClipPathElement nat | ClipCircleElement nat

type_synonym Selector = "string \<Rightarrow> ClipPath list \<Rightarrow> error + DefsElement option"

text \<open>
  The shared state. \<open>nodeGroup\<close> is the selection of \<open>g.node\<close> elements, each paired with
  the datum bound to it. The data join binds the i-th datum to the i-th element, and the
  datum is the node object itself, so the first components are the array \<open>data\<close>, which
  is also the array of the simulation's nodes.
\<close>

record World =
  nodeGroup :: "(Node \<times> NodeG) list"
  defs :: "ClipPath list"
  simulation :: Simulation

definition nodes_of :: "World \<Rightarrow> Node list" where
  "nodes_of w = map fst (nodeGroup w)"

definition update_nth :: "nat \<Rightarrow> ('a \<Rightarrow> 'a) \<Rightarrow> 'a list \<Rightarrow> 'a list" where
  "update_nth i f xs = (if i < length xs then xs[i := f (xs ! i)] else xs)"

definition update_node :: "nat \<Rightarrow> (Node \<Rightarrow> Node) \<Rightarrow> World \<Rightarrow> World" where
  "update_node i f w = w\<lparr> nodeGroup := update_nth i (apfst f) (nodeGroup w) \<rparr>"

definition update_g :: "nat \<Rightarrow> (NodeG \<Rightarrow> NodeG) \<Rightarrow> World \<Rightarrow> World" where
  "update_g i f w = w\<lparr> nodeGroup := update_nth i (apsnd f) (nodeGroup w) \<rparr>"

record Transition =
  tr_delay :: real
  tr_duration :: real
  tr_tween :: "World \<Rightarrow> real \<Rightarrow> World \<Rightarrow> World"

definition classed :: "Circle \<Rightarrow> string \<Rightarrow> bool" where
  "classed c name = (circle_class c = name)"

definition nth_opt :: "'a list \<Rightarrow> nat \<Rightarrow> 'a option" where
  "nth_opt xs i = (if i < length xs then Some (xs ! i) else None)"

fun find_index :: "('a \<Rightarrow> bool) \<Rightarrow> 'a list \<Rightarrow> nat option" where
  "find_index P [] = None"
| "find_index P (x # xs) = (if P x then Some 0 else map_option Suc (find_index P xs))"

subsection \<open>Creating the elements\<close>

definition createClipPaths :: "ClipPath list \<Rightarrow> Node list \<Rightarrow> ClipPath list" where
  "createClipPaths ds items =
     ds @ map (\<lambda>d. \<lparr> clip_id = ''clip-'' @ node_id d, clip_r = None, clip_circle_r = 0 \<rparr>) items"

definition new_image :: "Node \<Rightarrow> CssFilter \<Rightarrow> Image" where
  "new_image d flt =
     \<lparr> image_href = node_src d, image_x = 0, image_y = 0, image_width = 0, image_height = 0,
       image_clip_path = ''url(#clip-'' @ node_id d @ '')'', image_filter = flt \<rparr>"

definition createAlbumElements :: "Node \<Rightarrow> NodeG \<Rightarrow> NodeG" where
  "createAlbumElements d g =
     g\<lparr> g_circles := g_circles g @
           [\<lparr> circle_class = ''outer'', circle_r = 0 \<rparr>, \<lparr> circle_class = ''hole'', circle_r = 0 \<rparr>],
        g_images := g_images g @ [new_image d (Grayscale 20)] \<rparr>"

definition createArtistElements :: "Node \<Rightarrow> NodeG \<Rightarrow> NodeG" where
  "createArtistElements d g =
     g\<lparr> g_circles := g_circles g @ [\<lparr> circle_class = ''outer'', circle_r = 0 \<rparr>],
        g_images := g_images g @ [new_image d FilterNone] \<rparr>"

definition createTitleElements :: "Node \<Rightarrow> NodeG \<Rightarrow> NodeG" where
  "createTitleElements d g =
     g\<lparr> g_circles := g_circles g @ [\<lparr> circle_class = [], circle_r = 0 \<rparr>],
        g_texts := g_texts g @
           [\<lparr> text_class = ''title-main'', text_y = - 10, text_font_size = 0,
              text_content = ''ECHOS'' \<rparr>,
            \<lparr> text_class = ''title-sub'', text_y = 25, text_font_size = 0,
              text_content = ''Nous ne sommes qu'un'' \<rparr>] \<rparr>"

subsection \<open>The entrance animation: \<open>animateNodeEntrance\<close>\<close>

text \<open>
  \<open>entrance_circle_r d c\<close> is the function given to \<open>.attr("r", ...)\<close>; d3 calls it when
  the transition starts. \<open>imageSize\<close> is computed when the animation is scheduled.
  \<open>j\<close> is the position of the \<open>g\<close> element (and of its datum \<open>d\<close>) in \<open>nodeGroup\<close>.
\<close>

definition entrance_circle_r :: "Node \<Rightarrow> Circle \<Rightarrow> real" where
  "entrance_circle_r d c =
     (if classed c ''outer'' then node_r d
      else if classed c ''hole'' then nodeSize_holePadding
      else node_r d)"

definition opacity_tween :: "nat \<Rightarrow> World \<Rightarrow> real \<Rightarrow> World \<Rightarrow> World" where
  "opacity_tween j w0 =
     (case nth_opt (nodeGroup w0) j of
        None \<Rightarrow> (\<lambda>t w. w)
      | Some (d0, g0) \<Rightarrow>
          (\<lambda>t. update_g j (\<lambda>g. g\<lparr> g_opacity := interpolate (g_opacity g0) 1 t \<rparr>)))"

definition circle_tween :: "nat \<Rightarrow> nat \<Rightarrow> World \<Rightarrow> real \<Rightarrow> World \<Rightarrow> World" where
  "circle_tween j k w0 =
     (case nth_opt (nodeGroup w0) j of
        None \<Rightarrow> (\<lambda>t w. w)
      | Some (d0, g0) \<Rightarrow>
          (case nth_opt (g_circles g0) k of
             None \<Rightarrow> (\<lambda>t w. w)
           | Some c0 \<Rightarrow>
               (\<lambda>t. update_g j (\<lambda>g. g\<lparr> g_circles :=
                  update_nth k
                    (\<lambda>c. c\<lparr> circle_r := interpolate (circle_r c0) (entrance_circle_r d0 c0) t \<rparr>)
                    (g_circles g) \<rparr>))))"

definition image_tween :: "nat \<Rightarrow> nat \<Rightarrow> real \<Rightarrow> World \<Rightarrow> real \<Rightarrow> World \<Rightarrow> World" where
  "image_tween j k imageSize w0 =
     (case nth_opt (nodeGroup w0) j of
        None \<Rightarrow> (\<lambda>t w. w)
      | Some (d0, g0) \<Rightarrow>
          (case nth_opt (g_images g0) k of
             None \<Rightarrow> (\<lambda>t w. w)
           | Some i0 \<Rightarrow>
               (\<lambda>t. update_g j (\<lambda>g. g\<lparr> g_images :=
                  update_nth k
                    (\<lambda>im. im\<lparr> image_x := interpolate (image_x i0) (- imageSize) t,
                              image_y := interpolate (image_y i0) (- imageSize) t,
                              image_width := interpolate (image_width i0) (imageSize * 2) t,
                              image_height := interpolate (image_height i0) (imageSize * 2) t \<rparr>)
                    (g_images g) \<rparr>))))"

definition clip_tween :: "nat \<Rightarrow> real \<Rightarrow> World \<Rightarrow> real \<Rightarrow> World \<Rightarrow> World" where
  "clip_tween k imageSize w0 =
     (case nth_opt (defs w0) k of
        None \<Rightarrow> (\<lambda>t w. w)
      | Some c0 \<Rightarrow>
          (\<lambda>t w. w\<lparr> defs :=
             update_nth k
               (\<lambda>c. c\<lparr> clip_circle_r := interpolate (clip_circle_r c0) imageSize t \<rparr>)
               (defs w) \<rparr>))"

text \<open>An attribute read as a number is 0 when the element does not have it.\<close>

definition clip_element_tween :: "nat \<Rightarrow> real \<Rightarrow> World \<Rightarrow> real \<Rightarrow> World \<Rightarrow> World" where
  "clip_element_tween k imageSize w0 =
     (case nth_opt (defs w0) k of
        None \<Rightarrow> (\<lambda>t w. w)
      | Some c0 \<Rightarrow>
          (\<lambda>t w. w\<lparr> defs :=
             update_nth k
               (\<lambda>c. c\<lparr> clip_r :=
                  Some (interpolate (case clip_r c0 of None \<Rightarrow> 0 | Some a \<Rightarrow> a) imageSize t) \<rparr>)
               (defs w) \<rparr>))"

definition font_tween :: "nat \<Rightarrow> nat \<Rightarrow> real \<Rightarrow> World \<Rightarrow> real \<Rightarrow> World \<Rightarrow> World" where
  "font_tween j k target w0 =
     (case nth_opt (nodeGroup w0) j of
        None \<Rightarrow> (\<lambda>t w. w)
      | Some (d0, g0) \<Rightarrow>
          (case nth_opt (g_texts g0) k of
             None \<Rightarrow> (\<lambda>t w. w)
           | Some x0 \<Rightarrow>
               (\<lambda>t. update_g j (\<lambda>g. g\<lparr> g_texts :=
                  update_nth k
                    (\<lambda>x. x\<lparr> text_font_size := interpolate (text_font_size x0) target t \<rparr>)
                    (g_texts g) \<rparr>))))"

definition title_transitions :: "nat \<Rightarrow> real \<Rightarrow> NodeG \<Rightarrow> Transition list" where
  "title_transitions j delay g =
     (case find_index (\<lambda>x. text_class x = ''title-main'') (g_texts g) of
        None \<Rightarrow> []
      | Some k \<Rightarrow>
          [\<lparr> tr_delay = delay, tr_duration = ENTRANCE_ANIMATION_DURATION,
             tr_tween = font_tween j k 3 \<rparr>]) @
     (case find_index (\<lambda>x. text_class x = ''title-sub'') (g_texts g) of
        None \<Rightarrow> []
      | Some k \<Rightarrow>
          [\<lparr> tr_delay = delay + SUBTITLE_DELAY_OFFSET,
             tr_duration = ENTRANCE_ANIMATION_DURATION - SUBTITLE_DELAY_OFFSET,
             tr_tween = font_tween j k 2 \<rparr>])"

text \<open>
  The result is the list of the transitions scheduled, and the exception if the
  selection of the clip circle threw: then the statements after it did not run.
\<close>

definition animateNodeEntrance ::
  "Selector \<Rightarrow> nat \<Rightarrow> nat \<Rightarrow> World \<Rightarrow> Transition list \<times> error option" where
  "animateNodeEntrance querySelector j i w =
     (case nth_opt (nodeGroup w) j of
        None \<Rightarrow> ([], None)
      | Some (d, g) \<Rightarrow>
          (let delay = real i * ENTRANCE_ANIMATION_DELAY;
               imageSize = node_r d - nodeSize_clipPadding;
               scheduled =
                 [\<lparr> tr_delay = delay, tr_duration = OPACITY_ANIMATION_DURATION,
                    tr_tween = opacity_tween j \<rparr>] @
                 map (\<lambda>k. \<lparr> tr_delay = delay, tr_duration = OPACITY_ANIMATION_DURATION,
                             tr_tween = circle_tween j k \<rparr>) [0..<length (g_circles g)] @
                 map (\<lambda>k. \<lparr> tr_delay = delay, tr_duration = ENTRANCE_ANIMATION_DURATION,
                             tr_tween = image_tween j k imageSize \<rparr>) [0..<length (g_images g)]
           in case querySelector (''#clip-'' @ node_id d @ '' circle'') (defs w) of
                Inl e \<Rightarrow> (scheduled, Some e)
              | Inr selected \<Rightarrow>
                  (scheduled @
                   (case selected of
                      None \<Rightarrow> []
                    | Some (ClipCircleElement k) \<Rightarrow>
                        [\<lparr> tr_delay = delay, tr_duration = ENTRANCE_ANIMATION_DURATION,
                           tr_tween = clip_tween k imageSize \<rparr>]
                    | Some (ClipPathElement k) \<Rightarrow>
                        [\<lparr> tr_delay = delay, tr_duration = ENTRANCE_ANIMATION_DURATION,
                           tr_tween = clip_element_tween k imageSize \<rparr>]) @
                   (if node_type d = TypeTitle then title_transitions j delay g else []),
                   None)))"

text \<open>
  \<open>nodeGroup.each\<close> over the elements at the positions given: it stops at the first
  exception, with the transitions scheduled until then.
\<close>

fun animateNodeEntrance_each ::
  "Selector \<Rightarrow> World \<Rightarrow> nat list \<Rightarrow> Transition list \<times> error option" where
  "animateNodeEntrance_each querySelector w [] = ([], None)"
| "animateNodeEntrance_each querySelector w (i # rest) =
     (case animateNodeEntrance querySelector i i w of
        (trs, Some e) \<Rightarrow> (trs, Some e)
      | (trs, None) \<Rightarrow>
          (case animateNodeEntrance_each querySelector w rest of
             (trs', e) \<Rightarrow> (trs @ trs', e)))"

text \<open>
  What the entrance animation does not animate: the placement of each element, the
  classes of its circles, the source, clip reference and filter of its images, its
  texts apart from their font size, and the ids of the clip paths.
\<close>

definition static_attributes ::
  "World \<Rightarrow> (Transform option \<times> string list \<times> (string \<times> string \<times> CssFilter) list
              \<times> (string \<times> real \<times> string) list) list \<times> string list" where
  "static_attributes w =
     (map (\<lambda>(d, g). (g_transform g, map circle_class (g_circles g),
             map (\<lambda>im. (image_href im, image_clip_path im, image_filter im)) (g_images g),
             map (\<lambda>x. (text_class x, text_y x, text_content x)) (g_texts g)))
        (nodeGroup w),
      map clip_id (defs w))"

subsection \<open>Hover and leave: \<open>handleNodeHover\<close>, \<open>handleNodeLeave\<close>\<close>

definition updateCollisionForce :: "World \<Rightarrow> World" where
  "updateCollisionForce w =
     w\<lparr> simulation :=
         simulation_force ''collide''
           (ForceCollide
              (forceCollide\<lparr> cf_radius := (\<lambda>node. node_r node + nodeSize_holePadding),
                             cf_strength := forces_collide,
                             cf_iterations := performance_collisionIterations \<rparr>))
           (nodes_of w) (simulation w) \<rparr>"

definition restartSimulationIfNeeded :: "World \<Rightarrow> World" where
  "restartSimulationIfNeeded w =
     (if sim_alpha (simulation w) < performance_restartAlpha
      then w\<lparr> simulation :=
                (simulation w)\<lparr> sim_alpha := performance_restartAlpha, sim_running := True \<rparr> \<rparr>
      else w)"

text \<open>
  A handler gets its element and the datum \<open>d\<close> bound to it as their position \<open>j\<close> in
  \<open>nodeGroup\<close>; the simulation it is given is the one of the shared state.

  The function the \<open>"radius"\<close> tween returns: one frame of the radius animation of the
  node at position \<open>j\<close>, where \<open>tween\<close> is \<open>interpolate(d.r, targetSize)\<close>.
\<close>

definition radius_frame :: "nat \<Rightarrow> (real \<Rightarrow> real) \<Rightarrow> real \<Rightarrow> World \<Rightarrow> World" where
  "radius_frame j tween t w =
     restartSimulationIfNeeded
       (updateCollisionForce (update_node j (\<lambda>d. d\<lparr> node_r := tween t \<rparr>) w))"

definition radius_transition :: "nat \<Rightarrow> (real \<Rightarrow> real) \<Rightarrow> Transition" where
  "radius_transition j tween =
     \<lparr> tr_delay = 0, tr_duration = ANIMATION_DURATION / 2,
       tr_tween = (\<lambda>w0. radius_frame j tween) \<rparr>"

definition filter_tween :: "nat \<Rightarrow> real \<Rightarrow> World \<Rightarrow> real \<Rightarrow> World \<Rightarrow> World" where
  "filter_tween j target w0 =
     (case nth_opt (nodeGroup w0) j of
        None \<Rightarrow> (\<lambda>t w. w)
      | Some (d0, g0) \<Rightarrow>
          (case g_images g0 of
             [] \<Rightarrow> (\<lambda>t w. w)
           | i0 # _ \<Rightarrow>
               (\<lambda>t. update_g j (\<lambda>g. g\<lparr> g_images :=
                  update_nth 0
                    (\<lambda>im. im\<lparr> image_filter :=
                       (case image_filter i0 of
                          Grayscale a \<Rightarrow> Grayscale (interpolate a target t)
                        | FilterNone \<Rightarrow> Grayscale target) \<rparr>)
                    (g_images g) \<rparr>))))"

definition filter_transition :: "nat \<Rightarrow> real \<Rightarrow> Transition" where
  "filter_transition j target =
     \<lparr> tr_delay = 0, tr_duration = ANIMATION_DURATION, tr_tween = filter_tween j target \<rparr>"

text \<open>\<open>!v\<close> on an optional number: true for \<open>undefined\<close> and for \<open>0\<close>.\<close>

definition falsy :: "real option \<Rightarrow> bool" where
  "falsy v = (case v of None \<Rightarrow> True | Some a \<Rightarrow> a = 0)"

text \<open>The statement \<open>if (!d.originalR) d.originalR = d.r\<close>.\<close>

definition capture_originalR :: "Node \<Rightarrow> Node" where
  "capture_originalR d = (if falsy (originalR d) then d\<lparr> originalR := Some (node_r d) \<rparr> else d)"

definition handleNodeHover :: "nat \<Rightarrow> World \<Rightarrow> World \<times> Transition list" where
  "handleNodeHover j w =
     (case nth_opt (nodeGroup w) j of
        None \<Rightarrow> (w, [])
      | Some (d, g) \<Rightarrow>
          (let targetSize = nodeSize_hover;
               w' = update_node j capture_originalR w;
               tween = interpolate (node_r d) targetSize
           in (w', radius_transition j tween #
                   (if node_type d = TypeAlbum then [filter_transition j 0] else []))))"

text \<open>
  The constant \<open>targetSize\<close> of \<open>handleNodeLeave\<close>: \<open>d.originalR || (album ? 50 : 60)\<close>,
  where \<open>||\<close> takes its right operand when \<open>d.originalR\<close> is \<open>undefined\<close> or \<open>0\<close>.
\<close>

definition leave_targetSize :: "Node \<Rightarrow> real" where
  "leave_targetSize d =
     (case originalR d of
        Some v \<Rightarrow>
          (if v \<noteq> 0 then v
           else if node_type d = TypeAlbum then nodeSize_album else nodeSize_artist)
      | None \<Rightarrow> (if node_type d = TypeAlbum then nodeSize_album else nodeSize_artist))"

definition handleNodeLeave :: "nat \<Rightarrow> World \<Rightarrow> World \<times> Transition list" where
  "handleNodeLeave j w =
     (case nth_opt (nodeGroup w) j of
        None \<Rightarrow> (w, [])
      | Some (d, g) \<Rightarrow>
          (let targetSize = leave_targetSize d;
               tween = interpolate (node_r d) targetSize
           in (w, radius_transition j tween #
                  (if node_type d = TypeAlbum then [filter_transition j 20] else []))))"

subsection \<open>Render sync: \<open>updateVisualsOnTick\<close>\<close>

text \<open>\<open>s.replace(pat, rep)\<close> with a string pattern: the first occurrence only.\<close>

fun replace_first :: "string \<Rightarrow> string \<Rightarrow> string \<Rightarrow> string" where
  "replace_first pat rep [] = (if pat = [] then rep else [])"
| "replace_first pat rep (c # cs) =
     (if take (length pat) (c # cs) = pat then rep @ drop (length pat) (c # cs)
      else c # replace_first pat rep cs)"

definition tick_circle_r :: "Node \<Rightarrow> Circle \<Rightarrow> real" where
  "tick_circle_r d c =
     (if classed c ''outer'' then node_r d
      else if classed c ''hole'' then nodeSize_holePadding
      else node_r d)"

definition tick_image :: "Node \<Rightarrow> Image \<Rightarrow> Image" where
  "tick_image d im =
     im\<lparr> image_x := - (node_r d - nodeSize_clipPadding),
         image_y := - (node_r d - nodeSize_clipPadding),
         image_width := (node_r d - nodeSize_clipPadding) * 2,
         image_height := (node_r d - nodeSize_clipPadding) * 2 \<rparr>"

definition tick_g :: "Node \<times> NodeG \<Rightarrow> Node \<times> NodeG" where
  "tick_g = (\<lambda>(d, g).
     (d, g\<lparr> g_transform := Some (Translate (node_x d) (node_y d)),
            g_circles := map (\<lambda>c. c\<lparr> circle_r := tick_circle_r d c \<rparr>) (g_circles g),
            g_images := map (tick_image d) (g_images g) \<rparr>))"

definition tick_clip :: "Node list \<Rightarrow> ClipPath \<Rightarrow> ClipPath" where
  "tick_clip items c =
     (let clipId = clip_id c;
          nodeId = replace_first ''clip-'' [] clipId
      in c\<lparr> clip_circle_r :=
           (case find (\<lambda>d. node_id d = nodeId) items of
              Some node \<Rightarrow> node_r node - nodeSize_clipPadding
            | None \<Rightarrow> 0) \<rparr>)"

definition updateVisualsOnTick ::
  "(Node \<times> NodeG) list \<Rightarrow> ClipPath list \<Rightarrow> Node list \<Rightarrow> (Node \<times> NodeG) list \<times> ClipPath list" where
  "updateVisualsOnTick ng ds items = (map tick_g ng, map (tick_clip items) ds)"

text \<open>The listener of the simulation's \<open>tick\<close> event.\<close>

definition on_tick :: "World \<Rightarrow> World" where
  "on_tick w =
     (let (ng, ds) = updateVisualsOnTick (nodeGroup w) (defs w) (nodes_of w)
      in w\<lparr> nodeGroup := ng, defs := ds \<rparr>)"

subsection \<open>The effect of \<open>CollageMonde\<close>: building the simulation and the elements\<close>

definition new_g :: "Node \<Rightarrow> NodeG" where
  "new_g d =
     (let g = \<lparr> g_opacity = 0, g_transform = None, g_circles = [], g_images = [], g_texts = [] \<rparr>
      in case node_type d of
           TypeAlbum \<Rightarrow> createAlbumElements d g
         | TypeArtist \<Rightarrow> createArtistElements d g
         | TypeTitle \<Rightarrow> createTitleElements d g)"

definition cluster_x :: "(string \<rightharpoonup> Point) \<Rightarrow> real \<Rightarrow> Node \<Rightarrow> real" where
  "cluster_x clusters width d =
     (case clusters (node_group d) of Some cluster \<Rightarrow> pt_x cluster | None \<Rightarrow> width / 2)"

definition cluster_y :: "(string \<rightharpoonup> Point) \<Rightarrow> real \<Rightarrow> Node \<Rightarrow> real" where
  "cluster_y clusters height d =
     (case clusters (node_group d) of Some cluster \<Rightarrow> pt_y cluster | None \<Rightarrow> height / 2)"

definition build_simulation :: "(string \<rightharpoonup> Point) \<Rightarrow> Node list \<Rightarrow> Simulation" where
  "build_simulation clusters nodes =
     (let width = container_width; height = container_height;
          s0 = forceSimulation\<lparr> sim_alphaTarget := performance_alphaTarget,
                                sim_velocityDecay := performance_velocityDecay \<rparr>;
          s1 = simulation_force ''center''
                 (ForceCenter (width / 2) (height / 2) forces_center) nodes s0;
          s2 = simulation_force ''x'' (ForceX (cluster_x clusters width) forces_x) nodes s1;
          s3 = simulation_force ''y'' (ForceY (cluster_y clusters height) forces_y) nodes s2;
          s4 = simulation_force ''collide''
                 (ForceCollide
                    (forceCollide\<lparr> cf_radius := (\<lambda>d. node_r d + nodeSize_holePadding),
                                   cf_strength := forces_collide,
                                   cf_iterations := performance_collisionIterations \<rparr>))
                 nodes s3;
          s5 = simulation_force ''charge'' (ForceManyBody forces_charge) nodes s4
      in simulation_force ''radial''
           (ForceRadial centerHole_radius (width / 2) (height / 2) centerHole_strength)
           nodes s5)"

text \<open>
  What the effect has built when it ends. \<open>col_thrown\<close> is the exception that ended it,
  if one did: then the entrance transitions are those scheduled before it, and the
  statements after the entrance loop did not run, so no listener is attached to the
  elements or to the simulation's tick.
\<close>

record Collage =
  col_world :: World
  col_clusters :: "string \<rightharpoonup> Point"
  col_transitions :: "Transition list"
  col_thrown :: "error option"

text \<open>
  \<open>svg\<close> says whether \<open>svgRef.current\<close> is set. The effect returns early, building
  nothing, when the node list is empty or the element is missing.
\<close>

definition CollageMonde_effect ::
  "Selector \<Rightarrow> Group list \<Rightarrow> Node list \<Rightarrow> bool \<Rightarrow> Collage option" where
  "CollageMonde_effect querySelector groups items svg =
     (if length items = 0 \<or> \<not> svg then None
      else
        (let ds = createClipPaths [] items;
             clusters = createClusters groups container_width container_height;
             nodes = initializeNodes items;
             sim = build_simulation clusters nodes;
             w = \<lparr> nodeGroup = map (\<lambda>d. (d, new_g d)) nodes, defs = ds, simulation = sim \<rparr>;
             (trs, thrown) = animateNodeEntrance_each querySelector w [0..<length nodes]
         in Some \<lparr> col_world = w, col_clusters = clusters,
                   col_transitions = trs, col_thrown = thrown \<rparr>))"

text \<open>The component for a catalog, a filter and the draws: the memo, then the effect.\<close>

definition CollageMonde ::
  "(real \<Rightarrow> string) \<Rightarrow> Selector \<Rightarrow> (nat \<Rightarrow> real) \<Rightarrow> Group list \<Rightarrow> FilterType
     \<Rightarrow> bool \<Rightarrow> error + Collage option" where
  "CollageMonde toString querySelector rnd groups flt svg =
     (case data toString rnd groups flt of
        Inl e \<Rightarrow> Inl e
      | Inr items \<Rightarrow> Inr (CollageMonde_effect querySelector groups items svg))"

text \<open>The listeners are attached to the elements whose datum is not the title.\<close>

definition mouseenter :: "nat \<Rightarrow> World \<Rightarrow> World \<times> Transition list" where
  "mouseenter j w =
     (case nth_opt (nodeGroup w) j of
        None \<Rightarrow> (w, [])
      | Some (d, g) \<Rightarrow> if node_type d \<noteq> TypeTitle then handleNodeHover j w else (w, []))"

definition mouseleave :: "nat \<Rightarrow> World \<Rightarrow> World \<times> Transition list" where
  "mouseleave j w =
     (case nth_opt (nodeGroup w) j of
        None \<Rightarrow> (w, [])
      | Some (d, g) \<Rightarrow> if node_type d \<noteq> TypeTitle then handleNodeLeave j w else (w, []))"

subsection \<open>Sequences of events\<close>

text \<open>
  What can happen to the shared state once the collage is built: the pointer enters or
  leaves the element at a position, a frame of some radius animation runs, or the
  simulation ticks and the listener redraws.
\<close>

datatype Event = MouseEnter nat | MouseLeave nat | RadiusFrame nat real real real | Tick

fun step :: "Event \<Rightarrow> World \<Rightarrow> World" where
  "step (MouseEnter j) w = fst (mouseenter j w)"
| "step (MouseLeave j) w = fst (mouseleave j w)"
| "step (RadiusFrame j a b t) w = radius_frame j (interpolate a b) t w"
| "step Tick w = on_tick w"

definition run :: "Event list \<Rightarrow> World \<Rightarrow> World" where
  "run evs w = fold step evs w"

subsection \<open>A small catalog\<close>

text \<open>Two groups, \<open>A\<close> with two albums and \<open>B\<close> with one, and a constant sequence of draws.\<close>

fun digits_of :: "nat \<Rightarrow> string" where
  "digits_of n =
     (if n < 10 then [char_of (48 + n)]
      else digits_of (n div 10) @ [char_of (48 + n mod 10)])"

declare digits_of.simps [simp del]

text \<open>A conversion that prints a natural number in decimal.\<close>

definition scenario_toString :: "real \<Rightarrow> string" where
  "scenario_toString x = digits_of (nat \<lfloor>x\<rfloor>)"

definition scenario_album :: "real \<Rightarrow> Album" where
  "scenario_album i =
     \<lparr> album_id = i, album_title = ''t'', album_src = ''s.jpg'', album_alt = ''a'' \<rparr>"

definition scenario_groups :: "Group list" where
  "scenario_groups =
     [\<lparr> group_id = ''A'', group_name = ''Group A'',
        group_albums = [scenario_album 1, scenario_album 2] \<rparr>,
      \<lparr> group_id = ''B'', group_name = ''Group B'', group_albums = [scenario_album 3] \<rparr>]"

definition scenario_rnd :: "nat \<Rightarrow> real" where
  "scenario_rnd i = 3 / 4"

text \<open>
  The selection by id: what \<open>querySelector\<close> does with \<open>#id circle\<close> when the id is made
  of letters, digits, \<open>-\<close> and \<open>_\<close>.
\<close>

definition select_by_id :: Selector where
  "select_by_id selector ds =
     Inr (map_option ClipCircleElement
            (find_index (\<lambda>c. ''#'' @ clip_id c @ '' circle'' = selector) ds))"

definition scenario_node :: Node where
  "scenario_node = createAlbumNode scenario_toString (scenario_album 1) (hd scenario_groups) (3 / 4)"

text \<open>One album node with its elements, and a simulation that has cooled below the threshold.\<close>

definition scenario_world :: World where
  "scenario_world =
     \<lparr> nodeGroup = [(scenario_node, new_g scenario_node)],
       defs = createClipPaths [] [scenario_node],
       simulation = forceSimulation\<lparr> sim_alpha := 1 / 20, sim_running := False \<rparr> \<rparr>"

text \<open>
  The same world half-way through the hover animation: the node has radius 65 and the
  resting radius 60 recorded.
\<close>

definition scenario_rehover :: World where
  "scenario_rehover = run [MouseEnter 0, RadiusFrame 0 60 70 (1 / 2)] scenario_world"

section \<open>Properties\<close>

subsection \<open>Collision force configuration\<close>

lemma build_simulation_collide:
  "sim_forces (build_simulation clusters nodes) ''collide'' =
     Some (ForceCollide
       \<lparr> cf_radius = (\<lambda>d. node_r d + nodeSize_holePadding),
         cf_strength = forces_collide,
         cf_iterations = performance_collisionIterations,
         cf_radii = map (\<lambda>d. node_r d + nodeSize_holePadding) nodes \<rparr>)"
  by (simp add: build_simulation_def Let_def simulation_force_def forceCollide_def)

lemma updateCollisionForce_collide:
  "sim_forces (simulation (updateCollisionForce w)) ''collide'' =
     Some (ForceCollide
       \<lparr> cf_radius = (\<lambda>d. node_r d + nodeSize_holePadding),
         cf_strength = forces_collide,
         cf_iterations = performance_collisionIterations,
         cf_radii = map (\<lambda>d. node_r d + nodeSize_holePadding) (nodes_of w) \<rparr>)"
  by (simp add: updateCollisionForce_def simulation_force_def forceCollide_def)

text \<open>
  Claim C1, as stated, fails: the collision strength \<open>SIMULATION_CONFIG.forces.collide\<close>
  is \<open>1\<close>, not a value below \<open>1\<close>.
\<close>

theorem collide_strength_counterexample:
  "\<not> (1 < performance_collisionIterations \<and> forces_collide < 1)"
  by (simp add: forces_collide_def)

text \<open>
  Claim C1, amended. Both places that build the collision force (the effect, and
  \<open>updateCollisionForce\<close> at every hover frame) register it with three relaxation passes
  per tick, which is more than one, and with strength exactly \<open>1\<close>.
\<close>

theorem collide_configuration:
  "(\<exists>cf. sim_forces (build_simulation clusters nodes) ''collide'' = Some (ForceCollide cf)
         \<and> cf_iterations cf = 3 \<and> cf_strength cf = 1)
   \<and> (\<exists>cf. sim_forces (simulation (updateCollisionForce w)) ''collide'' = Some (ForceCollide cf)
         \<and> cf_iterations cf = 3 \<and> cf_strength cf = 1)
   \<and> 1 < performance_collisionIterations \<and> forces_collide = 1"
  by (simp add: build_simulation_collide updateCollisionForce_collide
      performance_collisionIterations_def forces_collide_def)

subsection \<open>Radius bounds\<close>

lemma randomDelta_bounds:
  assumes "0 \<le> u" "u < 1"
  shows "- nodeSize_maxDelta \<le> randomDelta u" "randomDelta u < nodeSize_maxDelta"
  using assms by (simp_all add: randomDelta_def nodeSize_maxDelta_def)

lemma createAlbumNode_r:
  assumes "0 \<le> u" "u < 1"
  shows "nodeSize_minAlbum \<le> node_r (createAlbumNode toString album grp u)"
    and "node_r (createAlbumNode toString album grp u) \<le> nodeSize_album + nodeSize_maxDelta"
  using randomDelta_bounds [OF assms]
  by (simp_all add: createAlbumNode_def Let_def config_defs)

lemma createArtistNode_r:
  assumes "0 \<le> u" "u < 1" "createArtistNode grp u = Inr n"
  shows "nodeSize_minArtist \<le> node_r n"
    and "node_r n \<le> nodeSize_artist + nodeSize_maxDelta"
  using randomDelta_bounds [OF assms(1,2)] assms(3)
  by (auto simp: createArtistNode_def Let_def config_defs split: list.splits)

lemma createAlbumNode_type [simp]: "node_type (createAlbumNode toString album grp u) = TypeAlbum"
  by (simp add: createAlbumNode_def)

lemma createArtistNode_type: "createArtistNode grp u = Inr n \<Longrightarrow> node_type n = TypeArtist"
  by (auto simp: createArtistNode_def split: list.splits)

lemma createArtistNode_Inr:
  "group_albums grp \<noteq> [] \<Longrightarrow> \<exists>n. createArtistNode grp u = Inr n"
  by (cases "group_albums grp") (simp_all add: createArtistNode_def)

lemma push_albums_eq:
  "push_albums toString rnd grp as (items, k) =
     (items @ map (\<lambda>(i, a). createAlbumNode toString a grp (rnd i)) (enumerate k as), k + length as)"
  by (induction as arbitrary: items k) simp_all

text \<open>What one group appends to the item list, for every filter.\<close>

lemma push_group_shape:
  "\<exists>ns k'.
     push_group toString rnd flt grp (items, k) = Inr (items @ ns, k')
     \<and> map node_type ns =
         (if flt = Tous \<or> flt = FilterAlbum
          then replicate (length (group_albums grp)) TypeAlbum else []) @
         (if (flt = Tous \<or> flt = FilterArtist) \<and> group_albums grp \<noteq> []
          then [TypeArtist] else [])
     \<and> (\<forall>n \<in> set ns. (\<exists>a i. n = createAlbumNode toString a grp (rnd i))
                      \<or> (\<exists>i. createArtistNode grp (rnd i) = Inr n))"
proof -
  let ?albums = "map (\<lambda>(i, a). createAlbumNode toString a grp (rnd i)) (enumerate k (group_albums grp))"
  have types: "map node_type ?albums = replicate (length (group_albums grp)) TypeAlbum"
    by (simp add: case_prod_unfold comp_def map_replicate_const)
  have origin: "\<forall>n \<in> set ?albums. \<exists>a i. n = createAlbumNode toString a grp (rnd i)"
    by auto
  show ?thesis
  proof (cases "(flt = Tous \<or> flt = FilterArtist) \<and> group_albums grp \<noteq> []")
    case True
    then have ne: "group_albums grp \<noteq> []" by simp
    show ?thesis
    proof (cases "flt = Tous \<or> flt = FilterAlbum")
      case a: True
      obtain n where n: "createArtistNode grp (rnd (k + length (group_albums grp))) = Inr n"
        using createArtistNode_Inr [OF ne] by blast
      have "push_group toString rnd flt grp (items, k) =
              Inr (items @ (?albums @ [n]), Suc (k + length (group_albums grp)))"
        using True a n by (simp add: push_group_def push_albums_eq)
      moreover have "map node_type (?albums @ [n]) =
           replicate (length (group_albums grp)) TypeAlbum @ [TypeArtist]"
        using types createArtistNode_type [OF n] by simp
      moreover have "\<forall>m \<in> set (?albums @ [n]). (\<exists>a i. m = createAlbumNode toString a grp (rnd i))
                      \<or> (\<exists>i. createArtistNode grp (rnd i) = Inr m)"
        using origin n by auto
      ultimately show ?thesis using True a by (intro exI [of _ "?albums @ [n]"]) auto
    next
      case a: False
      obtain n where n: "createArtistNode grp (rnd k) = Inr n"
        using createArtistNode_Inr [OF ne] by blast
      have "push_group toString rnd flt grp (items, k) = Inr (items @ [n], Suc k)"
        using True a n by (simp add: push_group_def)
      moreover have "map node_type [n] = [TypeArtist]"
        using createArtistNode_type [OF n] by simp
      moreover have "\<forall>m \<in> set [n]. (\<exists>a i. m = createAlbumNode toString a grp (rnd i))
                      \<or> (\<exists>i. createArtistNode grp (rnd i) = Inr m)"
        using n by auto
      ultimately show ?thesis using True a by (intro exI [of _ "[n]"]) auto
    qed
  next
    case False
    show ?thesis
    proof (cases "flt = Tous \<or> flt = FilterAlbum")
      case a: True
      have "push_group toString rnd flt grp (items, k) = Inr (items @ ?albums, k + length (group_albums grp))"
        using False a by (auto simp: push_group_def push_albums_eq)
      then show ?thesis using False a types origin
        by (intro exI [of _ "?albums"]) auto
    next
      case a: False
      have "push_group toString rnd flt grp (items, k) = Inr (items @ [], k)"
        using False a by (auto simp: push_group_def)
      then show ?thesis using False a by (intro exI [of _ "[]"]) auto
    qed
  qed
qed

lemma push_groups_shape:
  "\<exists>ns k'.
     push_groups toString rnd flt groups (items, k) = Inr (items @ ns, k')
     \<and> map node_type ns =
         concat (map (\<lambda>grp.
           (if flt = Tous \<or> flt = FilterAlbum
            then replicate (length (group_albums grp)) TypeAlbum else []) @
           (if (flt = Tous \<or> flt = FilterArtist) \<and> group_albums grp \<noteq> []
            then [TypeArtist] else [])) groups)
     \<and> (\<forall>n \<in> set ns. (\<exists>a grp i. n = createAlbumNode toString a grp (rnd i))
                      \<or> (\<exists>grp i. createArtistNode grp (rnd i) = Inr n))"
proof (induction groups arbitrary: items k)
  case Nil
  show ?case by (intro exI [of _ "[]"]) simp
next
  case (Cons grp rest)
  obtain ns1 k1 where
    1: "push_group toString rnd flt grp (items, k) = Inr (items @ ns1, k1)" and
    t1: "map node_type ns1 =
         (if flt = Tous \<or> flt = FilterAlbum
          then replicate (length (group_albums grp)) TypeAlbum else []) @
         (if (flt = Tous \<or> flt = FilterArtist) \<and> group_albums grp \<noteq> []
          then [TypeArtist] else [])" and
    o1: "\<forall>n \<in> set ns1. (\<exists>a i. n = createAlbumNode toString a grp (rnd i))
                      \<or> (\<exists>i. createArtistNode grp (rnd i) = Inr n)"
    using push_group_shape [of toString rnd flt grp items k] by blast
  obtain ns2 k2 where
    2: "push_groups toString rnd flt rest (items @ ns1, k1) = Inr ((items @ ns1) @ ns2, k2)" and
    t2: "map node_type ns2 =
         concat (map (\<lambda>grp.
           (if flt = Tous \<or> flt = FilterAlbum
            then replicate (length (group_albums grp)) TypeAlbum else []) @
           (if (flt = Tous \<or> flt = FilterArtist) \<and> group_albums grp \<noteq> []
            then [TypeArtist] else [])) rest)" and
    o2: "\<forall>n \<in> set ns2. (\<exists>a grp i. n = createAlbumNode toString a grp (rnd i))
                      \<or> (\<exists>grp i. createArtistNode grp (rnd i) = Inr n)"
    using Cons.IH [of "items @ ns1" k1] by blast
  have "push_groups toString rnd flt (grp # rest) (items, k) = Inr (items @ (ns1 @ ns2), k2)"
    using 1 2 by simp
  moreover have "map node_type (ns1 @ ns2) =
         concat (map (\<lambda>grp.
           (if flt = Tous \<or> flt = FilterAlbum
            then replicate (length (group_albums grp)) TypeAlbum else []) @
           (if (flt = Tous \<or> flt = FilterArtist) \<and> group_albums grp \<noteq> []
            then [TypeArtist] else [])) (grp # rest))"
    using t1 t2 by simp
  moreover have "\<forall>n \<in> set (ns1 @ ns2). (\<exists>a grp i. n = createAlbumNode toString a grp (rnd i))
                      \<or> (\<exists>grp i. createArtistNode grp (rnd i) = Inr n)"
    using o1 o2 by (metis Un_iff set_append)
  ultimately show ?case by blast
qed

lemma data_shape:
  "\<exists>ns.
     data toString rnd groups flt = Inr (createTitleNode # ns)
     \<and> map node_type ns =
         concat (map (\<lambda>grp.
           (if flt = Tous \<or> flt = FilterAlbum
            then replicate (length (group_albums grp)) TypeAlbum else []) @
           (if (flt = Tous \<or> flt = FilterArtist) \<and> group_albums grp \<noteq> []
            then [TypeArtist] else [])) groups)
     \<and> (\<forall>n \<in> set ns. (\<exists>a grp i. n = createAlbumNode toString a grp (rnd i))
                      \<or> (\<exists>grp i. createArtistNode grp (rnd i) = Inr n))"
proof -
  obtain ns k' where
    "push_groups toString rnd flt groups ([createTitleNode], 0) = Inr ([createTitleNode] @ ns, k')"
    and "map node_type ns =
         concat (map (\<lambda>grp.
           (if flt = Tous \<or> flt = FilterAlbum
            then replicate (length (group_albums grp)) TypeAlbum else []) @
           (if (flt = Tous \<or> flt = FilterArtist) \<and> group_albums grp \<noteq> []
            then [TypeArtist] else [])) groups)"
    and "\<forall>n \<in> set ns. (\<exists>a grp i. n = createAlbumNode toString a grp (rnd i))
                      \<or> (\<exists>grp i. createArtistNode grp (rnd i) = Inr n)"
    using push_groups_shape [of toString rnd flt groups "[createTitleNode]" 0] by blast
  then show ?thesis by (intro exI [of _ ns]) (simp add: data_def)
qed

text \<open>
  Claim C4. For every draw \<open>u\<close> in \<open>[0, 1)\<close> the random delta lies in
  \<open>[-maxDelta, maxDelta)\<close>, an album node gets a radius between \<open>minAlbum\<close> and
  \<open>album + maxDelta\<close>, and an artist node a radius between \<open>minArtist\<close> and
  \<open>artist + maxDelta\<close>. When all draws lie in \<open>[0, 1)\<close>, every album and artist node
  of the generated node list is within these bounds, for every catalog and filter.
\<close>

theorem radius_bounds:
  assumes "0 \<le> u" and "u < 1" and "\<forall>i. 0 \<le> rnd i \<and> rnd i < 1"
  shows "(- nodeSize_maxDelta \<le> randomDelta u \<and> randomDelta u < nodeSize_maxDelta)
       \<and> (nodeSize_minAlbum \<le> node_r (createAlbumNode toString album grp u)
          \<and> node_r (createAlbumNode toString album grp u) \<le> nodeSize_album + nodeSize_maxDelta)
       \<and> (\<forall>n. createArtistNode grp u = Inr n \<longrightarrow>
            nodeSize_minArtist \<le> node_r n \<and> node_r n \<le> nodeSize_artist + nodeSize_maxDelta)
       \<and> (\<exists>items. data toString rnd groups flt = Inr items
            \<and> (\<forall>n \<in> set items.
                 (node_type n = TypeAlbum \<longrightarrow>
                    nodeSize_minAlbum \<le> node_r n \<and> node_r n \<le> nodeSize_album + nodeSize_maxDelta)
                 \<and> (node_type n = TypeArtist \<longrightarrow>
                    nodeSize_minArtist \<le> node_r n
                    \<and> node_r n \<le> nodeSize_artist + nodeSize_maxDelta)))"
proof -
  obtain ns where d: "data toString rnd groups flt = Inr (createTitleNode # ns)"
    and o: "\<forall>n \<in> set ns. (\<exists>a grp i. n = createAlbumNode toString a grp (rnd i))
                      \<or> (\<exists>grp i. createArtistNode grp (rnd i) = Inr n)"
    using data_shape [of toString rnd groups flt] by blast
  have title: "node_type createTitleNode = TypeTitle"
    by (simp add: createTitleNode_def)
  have each: "(node_type n = TypeAlbum \<longrightarrow>
                 nodeSize_minAlbum \<le> node_r n \<and> node_r n \<le> nodeSize_album + nodeSize_maxDelta)
            \<and> (node_type n = TypeArtist \<longrightarrow>
                 nodeSize_minArtist \<le> node_r n \<and> node_r n \<le> nodeSize_artist + nodeSize_maxDelta)"
    if "n \<in> set ns" for n
  proof -
    from o that consider
      (album) a g i where "n = createAlbumNode toString a g (rnd i)"
      | (artist) g i where "createArtistNode g (rnd i) = Inr n"
      by blast
    then show ?thesis
    proof cases
      case album
      have "0 \<le> rnd i" "rnd i < 1" using assms(3) by simp_all
      from createAlbumNode_r [OF this] album show ?thesis by simp
    next
      case artist
      have "0 \<le> rnd i" "rnd i < 1" using assms(3) by simp_all
      from createArtistNode_r [OF this artist] createArtistNode_type [OF artist]
      show ?thesis by simp
    qed
  qed
  have list: "\<exists>items. data toString rnd groups flt = Inr items
            \<and> (\<forall>n \<in> set items.
                 (node_type n = TypeAlbum \<longrightarrow>
                    nodeSize_minAlbum \<le> node_r n \<and> node_r n \<le> nodeSize_album + nodeSize_maxDelta)
                 \<and> (node_type n = TypeArtist \<longrightarrow>
                    nodeSize_minArtist \<le> node_r n
                    \<and> node_r n \<le> nodeSize_artist + nodeSize_maxDelta))"
    using d each title by (intro exI [of _ "createTitleNode # ns"]) simp
  show ?thesis
    using randomDelta_bounds [OF assms(1,2)] createAlbumNode_r [OF assms(1,2)]
      createArtistNode_r [OF assms(1,2)] list
    by blast
qed

theorem radius_bounds_witness:
  "(0::real) \<le> 3 / 4 \<and> (3 / 4 :: real) < 1 \<and> scenario_rnd 0 = 3 / 4
   \<and> randomDelta (3 / 4) = 10
   \<and> node_r (createAlbumNode scenario_toString (scenario_album 1) (hd scenario_groups) (3 / 4)) = 60
   \<and> nodeSize_minAlbum \<le> node_r (createAlbumNode scenario_toString (scenario_album 1) (hd scenario_groups) (3 / 4))
   \<and> node_r (createAlbumNode scenario_toString (scenario_album 1) (hd scenario_groups) (3 / 4))
        \<le> nodeSize_album + nodeSize_maxDelta"
  using radius_bounds [of "3 / 4" scenario_rnd scenario_toString "scenario_album 1" "hd scenario_groups"]
  by (simp add: scenario_rnd_def randomDelta_def createAlbumNode_def config_defs)

subsection \<open>Node-set construction\<close>

lemma concat_replicate:
  "concat (map (\<lambda>g. replicate (f g) x) gs) = replicate (sum_list (map f gs)) x"
  by (induction gs) (simp_all add: replicate_add)

lemma concat_optional:
  "concat (map (\<lambda>g. if P g then [x] else []) gs) = replicate (length (filter P gs)) x"
  by (induction gs) simp_all

lemma data_types:
  "map_sum id (map node_type) (data toString rnd groups flt) =
     Inr (TypeTitle #
       concat (map (\<lambda>grp.
           (if flt = Tous \<or> flt = FilterAlbum
            then replicate (length (group_albums grp)) TypeAlbum else []) @
           (if (flt = Tous \<or> flt = FilterArtist) \<and> group_albums grp \<noteq> []
            then [TypeArtist] else [])) groups))"
proof -
  obtain ns where "data toString rnd groups flt = Inr (createTitleNode # ns)"
    and "map node_type ns =
         concat (map (\<lambda>grp.
           (if flt = Tous \<or> flt = FilterAlbum
            then replicate (length (group_albums grp)) TypeAlbum else []) @
           (if (flt = Tous \<or> flt = FilterArtist) \<and> group_albums grp \<noteq> []
            then [TypeArtist] else [])) groups)"
    using data_shape [of toString rnd groups flt] by blast
  then show ?thesis by (simp add: createTitleNode_def)
qed

lemma data_one_title:
  "\<exists>items. data toString rnd groups flt = Inr items
     \<and> length (filter (\<lambda>n. node_type n = TypeTitle) items) = 1"
proof -
  obtain ns where d: "data toString rnd groups flt = Inr (createTitleNode # ns)"
    and o: "\<forall>n \<in> set ns. (\<exists>a grp i. n = createAlbumNode toString a grp (rnd i))
                      \<or> (\<exists>grp i. createArtistNode grp (rnd i) = Inr n)"
    using data_shape [of toString rnd groups flt] by blast
  have "node_type n \<noteq> TypeTitle" if "n \<in> set ns" for n
    using o that createArtistNode_type by fastforce
  then have "filter (\<lambda>n. node_type n = TypeTitle) ns = []"
    by (simp add: filter_empty_conv)
  then show ?thesis using d by (simp add: createTitleNode_def)
qed

lemma push_group_no_albums:
  "push_group toString rnd flt (grp\<lparr> group_albums := [] \<rparr>) st = Inr st"
  by (cases st) (simp add: push_group_def)

text \<open>
  Claim C5. Construction never fails, for any catalog and filter. Read by node type, the
  list is the title followed by: under \<open>album\<close>, one album node per album of every
  group; under \<open>artist\<close>, one artist node per group that has an album; under \<open>tous\<close>
  (the default), each group's album nodes followed by its artist node when it has an
  album. Exactly one node is the title. A group without albums adds nothing and raises
  nothing. For a group \<open>A\<close> with two albums and a group \<open>B\<close> with one, the list under
  \<open>tous\<close> has six nodes.
\<close>

theorem node_set_by_filter:
  "map_sum id (map node_type) (data toString rnd groups FilterAlbum) =
     Inr (TypeTitle # replicate (sum_list (map (\<lambda>g. length (group_albums g)) groups)) TypeAlbum)
   \<and> map_sum id (map node_type) (data toString rnd groups FilterArtist) =
     Inr (TypeTitle # replicate (length (filter (\<lambda>g. group_albums g \<noteq> []) groups)) TypeArtist)
   \<and> map_sum id (map node_type) (data toString rnd groups Tous) =
     Inr (TypeTitle #
       concat (map (\<lambda>g. replicate (length (group_albums g)) TypeAlbum @
                          (if group_albums g \<noteq> [] then [TypeArtist] else [])) groups))
   \<and> (\<exists>items. data toString rnd groups flt = Inr items
         \<and> length (filter (\<lambda>n. node_type n = TypeTitle) items) = 1)
   \<and> push_group toString rnd flt (grp\<lparr> group_albums := [] \<rparr>) st = Inr st
   \<and> map_sum id length
        (data toString rnd
           [\<lparr> group_id = ''A'', group_name = nameA, group_albums = [album1, album2] \<rparr>,
            \<lparr> group_id = ''B'', group_name = nameB, group_albums = [album3] \<rparr>] Tous) = Inr 6"
proof -
  have a: "map_sum id (map node_type) (data toString rnd groups FilterAlbum) =
     Inr (TypeTitle # replicate (sum_list (map (\<lambda>g. length (group_albums g)) groups)) TypeAlbum)"
    by (simp add: data_types concat_replicate)
  have b: "map_sum id (map node_type) (data toString rnd groups FilterArtist) =
     Inr (TypeTitle # replicate (length (filter (\<lambda>g. group_albums g \<noteq> []) groups)) TypeArtist)"
    by (simp add: data_types concat_optional)
  have c: "map_sum id (map node_type) (data toString rnd groups Tous) =
     Inr (TypeTitle #
       concat (map (\<lambda>g. replicate (length (group_albums g)) TypeAlbum @
                          (if group_albums g \<noteq> [] then [TypeArtist] else [])) groups))"
    by (simp add: data_types)
  have "map_sum id (map node_type)
          (data toString rnd
             [\<lparr> group_id = ''A'', group_name = nameA, group_albums = [album1, album2] \<rparr>,
              \<lparr> group_id = ''B'', group_name = nameB, group_albums = [album3] \<rparr>] Tous) =
        Inr [TypeTitle, TypeAlbum, TypeAlbum, TypeArtist, TypeAlbum, TypeArtist]"
    by (simp add: data_types)
  then have e: "map_sum id length
        (data toString rnd
           [\<lparr> group_id = ''A'', group_name = nameA, group_albums = [album1, album2] \<rparr>,
            \<lparr> group_id = ''B'', group_name = nameB, group_albums = [album3] \<rparr>] Tous) = Inr 6"
    by (cases "data toString rnd
           [\<lparr> group_id = ''A'', group_name = nameA, group_albums = [album1, album2] \<rparr>,
            \<lparr> group_id = ''B'', group_name = nameB, group_albums = [album3] \<rparr>] Tous") auto
  show ?thesis
    using a b c e data_one_title [of toString rnd groups flt] push_group_no_albums [of toString rnd flt grp st]
    by blast
qed

subsection \<open>Cluster targets\<close>

lemma createClusters_forEach_dom:
  "dom (createClusters_forEach gs i n w h m) = dom m \<union> group_id ` set gs"
  by (induction gs arbitrary: i m) (auto simp: Let_def)

lemma createClusters_forEach_other:
  "k \<notin> group_id ` set gs \<Longrightarrow> createClusters_forEach gs i n w h m k = m k"
  by (induction gs arbitrary: i m) (auto simp: Let_def)

lemma createClusters_forEach_nth:
  "distinct (map group_id gs) \<Longrightarrow> j < length gs \<Longrightarrow>
     createClusters_forEach gs i n w h m (group_id (gs ! j)) =
       Some \<lparr> pt_x = w / 2 + cos ((real (i + j) / real n) * 2 * pi) * (min w h / 4),
              pt_y = h / 2 + sin ((real (i + j) / real n) * 2 * pi) * (min w h / 4) \<rparr>"
proof (induction gs arbitrary: i m j)
  case Nil
  then show ?case by simp
next
  case (Cons g rest)
  show ?case
  proof (cases j)
    case 0
    have "group_id g \<notin> group_id ` set rest" using Cons.prems(1) by auto
    then show ?thesis using 0
      by (simp add: Let_def createClusters_forEach_other)
  next
    case (Suc j')
    have "distinct (map group_id rest)" "j' < length rest"
      using Cons.prems Suc by simp_all
    from Cons.IH [OF this, of "Suc i"] show ?thesis using Suc
      by (simp add: Let_def)
  qed
qed

text \<open>
  Claim C6. For groups with distinct ids, \<open>createClusters\<close> returns a map whose keys are
  exactly the group ids, one entry per group, and the i-th group (counting from 0) of
  the n groups gets the point at angle \<open>2 * pi * i / n\<close> on the circle of radius
  \<open>min width height / 4\<close> around \<open>(width / 2, height / 2)\<close>. The map is a function of
  the group list, the width and the height alone: no draw enters it.
\<close>

theorem cluster_targets:
  assumes "distinct (map group_id groups)"
  shows "dom (createClusters groups width height) = set (map group_id groups)
       \<and> card (dom (createClusters groups width height)) = length groups
       \<and> (\<forall>i < length groups.
            createClusters groups width height (group_id (groups ! i)) =
              Some \<lparr> pt_x = width / 2
                       + (min width height / 4) * cos (2 * pi * real i / real (length groups)),
                     pt_y = height / 2
                       + (min width height / 4) * sin (2 * pi * real i / real (length groups)) \<rparr>)"
proof -
  have d: "dom (createClusters groups width height) = set (map group_id groups)"
    by (simp add: createClusters_def createClusters_forEach_dom)
  have c: "card (dom (createClusters groups width height)) = length groups"
    using d distinct_card [OF assms] by simp
  have p: "createClusters groups width height (group_id (groups ! i)) =
              Some \<lparr> pt_x = width / 2
                       + (min width height / 4) * cos (2 * pi * real i / real (length groups)),
                     pt_y = height / 2
                       + (min width height / 4) * sin (2 * pi * real i / real (length groups)) \<rparr>"
    if "i < length groups" for i
    using createClusters_forEach_nth [OF assms that, of 0 "length groups" width height Map.empty]
    by (simp add: createClusters_def mult.commute mult.left_commute)
  show ?thesis using d c p by blast
qed

theorem cluster_targets_witness:
  "distinct (map group_id scenario_groups)
   \<and> dom (createClusters scenario_groups 1280 960) = {''A'', ''B''}
   \<and> createClusters scenario_groups 1280 960 ''A'' = Some \<lparr> pt_x = 880, pt_y = 480 \<rparr>
   \<and> createClusters scenario_groups 1280 960 ''B'' = Some \<lparr> pt_x = 400, pt_y = 480 \<rparr>"
proof -
  have h: "distinct (map group_id scenario_groups)"
    by (simp add: scenario_groups_def)
  note t = cluster_targets [OF h, of 1280 960]
  have l: "length scenario_groups = 2" by (simp add: scenario_groups_def)
  have a: "createClusters scenario_groups 1280 960 (group_id (scenario_groups ! 0)) =
             Some \<lparr> pt_x = 880, pt_y = 480 \<rparr>"
    using t l by simp
  have "createClusters scenario_groups 1280 960 (group_id (scenario_groups ! 1)) =
             Some \<lparr> pt_x = 1280 / 2 + (min 1280 960 / 4) * cos (2 * pi * real 1 / real 2),
                    pt_y = 960 / 2 + (min 1280 960 / 4) * sin (2 * pi * real 1 / real 2) \<rparr>"
    using t l by (metis one_less_numeral_iff semiring_norm(76))
  then have b: "createClusters scenario_groups 1280 960 (group_id (scenario_groups ! 1)) =
             Some \<lparr> pt_x = 400, pt_y = 480 \<rparr>"
    by simp
  have "dom (createClusters scenario_groups 1280 960) = {''A'', ''B''}"
    using t by (auto simp: scenario_groups_def)
  then show ?thesis using h a b by (simp add: scenario_groups_def)
qed

lemma build_simulation_x:
  "sim_forces (build_simulation clusters nodes) ''x'' =
     Some (ForceX (cluster_x clusters container_width) forces_x)"
  by (simp add: build_simulation_def Let_def simulation_force_def)

lemma build_simulation_y:
  "sim_forces (build_simulation clusters nodes) ''y'' =
     Some (ForceY (cluster_y clusters container_height) forces_y)"
  by (simp add: build_simulation_def Let_def simulation_force_def)

lemma CollageMonde_built:
  "\<exists>c. CollageMonde toString querySelector rnd groups flt True = Inr (Some c)
     \<and> col_clusters c = createClusters groups container_width container_height
     \<and> sim_forces (simulation (col_world c)) ''x'' =
         Some (ForceX (cluster_x (createClusters groups container_width container_height)
                         container_width) forces_x)
     \<and> sim_forces (simulation (col_world c)) ''y'' =
         Some (ForceY (cluster_y (createClusters groups container_width container_height)
                         container_height) forces_y)"
proof -
  obtain ns where "data toString rnd groups flt = Inr (createTitleNode # ns)"
    using data_shape [of toString rnd groups flt] by blast
  then show ?thesis
    by (simp add: CollageMonde_def CollageMonde_effect_def Let_def case_prod_unfold
        build_simulation_x build_simulation_y)
qed

text \<open>
  Claim C7. The effect computes the cluster targets from the whole group list of the
  catalog, never from the filtered node list. For one group list, any two filters (and
  any draws, whatever the selections of the entrance do) build collages with the same
  cluster map, and the same target accessors in the \<open>x\<close> and \<open>y\<close> forces.
\<close>

theorem cluster_targets_filter_independent:
  "\<exists>c1 c2. CollageMonde toString1 querySelector1 rnd1 groups flt1 True = Inr (Some c1)
     \<and> CollageMonde toString2 querySelector2 rnd2 groups flt2 True = Inr (Some c2)
     \<and> col_clusters c1 = col_clusters c2
     \<and> col_clusters c1 = createClusters groups container_width container_height
     \<and> sim_forces (simulation (col_world c1)) ''x'' = sim_forces (simulation (col_world c2)) ''x''
     \<and> sim_forces (simulation (col_world c1)) ''y'' = sim_forces (simulation (col_world c2)) ''y''"
proof -
  obtain c1 where 1: "CollageMonde toString1 querySelector1 rnd1 groups flt1 True = Inr (Some c1)"
      "col_clusters c1 = createClusters groups container_width container_height"
      "sim_forces (simulation (col_world c1)) ''x'' =
         Some (ForceX (cluster_x (createClusters groups container_width container_height)
                         container_width) forces_x)"
      "sim_forces (simulation (col_world c1)) ''y'' =
         Some (ForceY (cluster_y (createClusters groups container_width container_height)
                         container_height) forces_y)"
    using CollageMonde_built [of toString1 querySelector1 rnd1 groups flt1] by blast
  obtain c2 where 2: "CollageMonde toString2 querySelector2 rnd2 groups flt2 True = Inr (Some c2)"
      "col_clusters c2 = createClusters groups container_width container_height"
      "sim_forces (simulation (col_world c2)) ''x'' =
         Some (ForceX (cluster_x (createClusters groups container_width container_height)
                         container_width) forces_x)"
      "sim_forces (simulation (col_world c2)) ''y'' =
         Some (ForceY (cluster_y (createClusters groups container_width container_height)
                         container_height) forces_y)"
    using CollageMonde_built [of toString2 querySelector2 rnd2 groups flt2] by blast
  show ?thesis
    using 1 2 by (intro exI [of _ c1] exI [of _ c2]) simp
qed

subsection \<open>Render sync\<close>

lemma tick_g_idem: "tick_g (tick_g p) = tick_g p"
  by (cases p) (simp add: tick_g_def tick_circle_r_def classed_def tick_image_def comp_def)

lemma tick_clip_idem: "tick_clip items (tick_clip items c) = tick_clip items c"
  by (simp add: tick_clip_def Let_def)

lemma fst_tick_g [simp]: "fst (tick_g p) = fst p"
  by (cases p) (simp add: tick_g_def)

lemma nodes_of_on_tick: "nodes_of (on_tick w) = nodes_of w"
  by (simp add: on_tick_def updateVisualsOnTick_def nodes_of_def comp_def)

lemma replace_first_clip: "replace_first ''clip-'' [] (''clip-'' @ s) = s"
  by simp

lemma find_distinct_id:
  "distinct (map node_id items) \<Longrightarrow> d \<in> set items \<Longrightarrow>
     find (\<lambda>n. node_id n = node_id d) items = Some d"
  by (induction items) auto

lemma updateVisualsOnTick_idem:
  "updateVisualsOnTick (fst (updateVisualsOnTick ng ds items))
     (snd (updateVisualsOnTick ng ds items)) items = updateVisualsOnTick ng ds items"
  by (simp add: updateVisualsOnTick_def comp_def tick_g_idem tick_clip_idem)

lemma on_tick_idem: "on_tick (on_tick w) = on_tick w"
proof -
  have "nodes_of (on_tick w) = nodes_of w" by (rule nodes_of_on_tick)
  then show ?thesis
    by (simp add: on_tick_def updateVisualsOnTick_def comp_def tick_g_idem tick_clip_idem
        nodes_of_def)
qed

lemma tick_g_output:
  assumes "(d, g) \<in> set (map tick_g ng)"
  shows "g_transform g = Some (Translate (node_x d) (node_y d))"
    and "\<forall>c \<in> set (g_circles g).
           (classed c ''outer'' \<longrightarrow> circle_r c = node_r d)
           \<and> (classed c ''hole'' \<longrightarrow> circle_r c = nodeSize_holePadding)
           \<and> (\<not> classed c ''hole'' \<longrightarrow> circle_r c = node_r d)"
    and "\<forall>im \<in> set (g_images g).
           image_x im = - (node_r d - nodeSize_clipPadding)
           \<and> image_y im = - (node_r d - nodeSize_clipPadding)
           \<and> image_width im = (node_r d - nodeSize_clipPadding) * 2
           \<and> image_height im = (node_r d - nodeSize_clipPadding) * 2"
proof -
  obtain g0 where g: "g = snd (tick_g (d, g0))"
    using assms by (auto simp: tick_g_def)
  show "g_transform g = Some (Translate (node_x d) (node_y d))"
    using g by (simp add: tick_g_def)
  show "\<forall>c \<in> set (g_circles g).
           (classed c ''outer'' \<longrightarrow> circle_r c = node_r d)
           \<and> (classed c ''hole'' \<longrightarrow> circle_r c = nodeSize_holePadding)
           \<and> (\<not> classed c ''hole'' \<longrightarrow> circle_r c = node_r d)"
    using g by (auto simp: tick_g_def tick_circle_r_def classed_def)
  show "\<forall>im \<in> set (g_images g).
           image_x im = - (node_r d - nodeSize_clipPadding)
           \<and> image_y im = - (node_r d - nodeSize_clipPadding)
           \<and> image_width im = (node_r d - nodeSize_clipPadding) * 2
           \<and> image_height im = (node_r d - nodeSize_clipPadding) * 2"
    using g by (auto simp: tick_g_def tick_image_def)
qed

lemma tick_clip_output:
  assumes "distinct (map node_id items)" and "d \<in> set items"
    and "c \<in> set (map (tick_clip items) ds)" and "clip_id c = ''clip-'' @ node_id d"
  shows "clip_circle_r c = node_r d - nodeSize_clipPadding"
proof -
  obtain c0 where c: "c = tick_clip items c0" using assms(3) by auto
  then have id0: "clip_id c0 = ''clip-'' @ node_id d"
    using assms(4) by (simp add: tick_clip_def Let_def)
  have "replace_first ''clip-'' [] (clip_id c0) = node_id d"
    unfolding id0 by (rule replace_first_clip)
  then have "clip_circle_r (tick_clip items c0) = node_r d - nodeSize_clipPadding"
    using find_distinct_id [OF assms(1,2)] by (simp add: tick_clip_def Let_def)
  then show ?thesis using c by simp
qed

text \<open>
  Claim C8. \<open>updateVisualsOnTick\<close> run on its own output, with the same nodes, returns
  that output again; so does the tick listener on the shared state. What it writes is
  read from the node states alone: each element is placed at its datum's position, an
  outer (or unclassed) circle gets the datum's current radius, the hole circle the
  constant \<open>holePadding\<close> whatever the radius, the image box is the square of half-side
  \<open>r - clipPadding\<close> around the origin, and each clip circle gets \<open>r - clipPadding\<close> of
  the first node whose id follows \<open>clip-\<close> in the clip path's id (0 when there is none):
  node ids being distinct, the clip circle of every node gets that node's
  \<open>r - clipPadding\<close>.
\<close>

theorem render_sync_idempotent:
  "updateVisualsOnTick (fst (updateVisualsOnTick ng ds items))
     (snd (updateVisualsOnTick ng ds items)) items = updateVisualsOnTick ng ds items
   \<and> on_tick (on_tick w) = on_tick w
   \<and> (\<forall>(d, g) \<in> set (fst (updateVisualsOnTick ng ds items)).
        g_transform g = Some (Translate (node_x d) (node_y d))
        \<and> (\<forall>c \<in> set (g_circles g).
             (classed c ''outer'' \<longrightarrow> circle_r c = node_r d)
             \<and> (classed c ''hole'' \<longrightarrow> circle_r c = nodeSize_holePadding)
             \<and> (\<not> classed c ''hole'' \<longrightarrow> circle_r c = node_r d))
        \<and> (\<forall>im \<in> set (g_images g).
             image_x im = - (node_r d - nodeSize_clipPadding)
             \<and> image_y im = - (node_r d - nodeSize_clipPadding)
             \<and> image_width im = (node_r d - nodeSize_clipPadding) * 2
             \<and> image_height im = (node_r d - nodeSize_clipPadding) * 2))
   \<and> map clip_circle_r (snd (updateVisualsOnTick ng ds items)) =
       map (\<lambda>c. case find (\<lambda>d. node_id d = replace_first ''clip-'' [] (clip_id c)) items of
                  Some node \<Rightarrow> node_r node - nodeSize_clipPadding
                | None \<Rightarrow> 0) ds
   \<and> (distinct (map node_id items) \<longrightarrow>
        (\<forall>d \<in> set items. \<forall>c \<in> set (snd (updateVisualsOnTick ng ds items)).
           clip_id c = ''clip-'' @ node_id d \<longrightarrow>
           clip_circle_r c = node_r d - nodeSize_clipPadding))"
proof -
  have 5: "map clip_circle_r (snd (updateVisualsOnTick ng ds items)) =
       map (\<lambda>c. case find (\<lambda>d. node_id d = replace_first ''clip-'' [] (clip_id c)) items of
                  Some node \<Rightarrow> node_r node - nodeSize_clipPadding
                | None \<Rightarrow> 0) ds"
    by (simp add: updateVisualsOnTick_def tick_clip_def Let_def comp_def)
  have 3: "\<forall>(d, g) \<in> set (fst (updateVisualsOnTick ng ds items)).
        g_transform g = Some (Translate (node_x d) (node_y d))
        \<and> (\<forall>c \<in> set (g_circles g).
             (classed c ''outer'' \<longrightarrow> circle_r c = node_r d)
             \<and> (classed c ''hole'' \<longrightarrow> circle_r c = nodeSize_holePadding)
             \<and> (\<not> classed c ''hole'' \<longrightarrow> circle_r c = node_r d))
        \<and> (\<forall>im \<in> set (g_images g).
             image_x im = - (node_r d - nodeSize_clipPadding)
             \<and> image_y im = - (node_r d - nodeSize_clipPadding)
             \<and> image_width im = (node_r d - nodeSize_clipPadding) * 2
             \<and> image_height im = (node_r d - nodeSize_clipPadding) * 2)"
  proof -
    have "g_transform g = Some (Translate (node_x d) (node_y d))
        \<and> (\<forall>c \<in> set (g_circles g).
             (classed c ''outer'' \<longrightarrow> circle_r c = node_r d)
             \<and> (classed c ''hole'' \<longrightarrow> circle_r c = nodeSize_holePadding)
             \<and> (\<not> classed c ''hole'' \<longrightarrow> circle_r c = node_r d))
        \<and> (\<forall>im \<in> set (g_images g).
             image_x im = - (node_r d - nodeSize_clipPadding)
             \<and> image_y im = - (node_r d - nodeSize_clipPadding)
             \<and> image_width im = (node_r d - nodeSize_clipPadding) * 2
             \<and> image_height im = (node_r d - nodeSize_clipPadding) * 2)"
      if "(d, g) \<in> set (map tick_g ng)" for d g
      using tick_g_output [OF that] by blast
    then show ?thesis
      unfolding updateVisualsOnTick_def fst_conv by blast
  qed
  have 4: "distinct (map node_id items) \<longrightarrow>
        (\<forall>d \<in> set items. \<forall>c \<in> set (snd (updateVisualsOnTick ng ds items)).
           clip_id c = ''clip-'' @ node_id d \<longrightarrow>
           clip_circle_r c = node_r d - nodeSize_clipPadding)"
    unfolding updateVisualsOnTick_def snd_conv
    using tick_clip_output [of items _ _ ds] by blast
  show ?thesis
    using updateVisualsOnTick_idem [of ng ds items] on_tick_idem [of w] 3 4 5 by blast
qed

theorem render_sync_idempotent_witness:
  "distinct (map node_id [scenario_node])
   \<and> node_r scenario_node = 60
   \<and> on_tick (on_tick scenario_world) = on_tick scenario_world
   \<and> map clip_circle_r (defs (on_tick scenario_world)) = [58]
   \<and> map (\<lambda>(d, g). map circle_r (g_circles g)) (nodeGroup (on_tick scenario_world)) = [[60, 2]]"
proof -
  note t = render_sync_idempotent [of "nodeGroup scenario_world" "defs scenario_world"
      "[scenario_node]" scenario_world]
  have r: "node_r scenario_node = 60"
    by (simp add: scenario_node_def createAlbumNode_def randomDelta_def config_defs)
  have ty: "node_type scenario_node = TypeAlbum"
    by (simp add: scenario_node_def)
  let ?out = "updateVisualsOnTick (nodeGroup scenario_world) (defs scenario_world) [scenario_node]"
  obtain c where c: "snd ?out = [c]" "clip_id c = ''clip-'' @ node_id scenario_node"
    by (simp add: updateVisualsOnTick_def scenario_world_def createClipPaths_def tick_clip_def
        Let_def)
  have "clip_circle_r c = node_r scenario_node - nodeSize_clipPadding"
    using t c by simp
  then have clip: "map clip_circle_r (defs (on_tick scenario_world)) = [58]"
    using c r by (simp add: on_tick_def nodes_of_def scenario_world_def case_prod_unfold
        nodeSize_clipPadding_def)
  have circ: "map (\<lambda>(d, g). map circle_r (g_circles g)) (nodeGroup (on_tick scenario_world))
      = [[60, 2]]"
    using r ty
    by (simp add: on_tick_def nodes_of_def scenario_world_def case_prod_unfold
        updateVisualsOnTick_def tick_g_def new_g_def createAlbumElements_def
        tick_circle_r_def classed_def nodeSize_holePadding_def)
  show ?thesis using t r clip circ by simp
qed

subsection \<open>The entrance animation writes rendered attributes only\<close>

lemma nth_opt_update_nth:
  "nth_opt (update_nth i f xs) j = (if i = j then map_option f (nth_opt xs j) else nth_opt xs j)"
  by (simp add: nth_opt_def update_nth_def)

lemma length_update_nth [simp]: "length (update_nth i f xs) = length xs"
  by (simp add: update_nth_def)

lemma map_fst_update_nth_apsnd: "map fst (update_nth i (apsnd f) xs) = map fst xs"
  by (simp add: update_nth_def map_update list_update_same_conv)

lemma nodes_of_update_g [simp]: "nodes_of (update_g j f w) = nodes_of w"
  by (simp add: nodes_of_def update_g_def map_fst_update_nth_apsnd)

lemma simulation_update_g [simp]: "simulation (update_g j f w) = simulation w"
  by (simp add: update_g_def)

lemma opacity_tween_frame:
  "nodes_of (opacity_tween j w0 t w) = nodes_of w \<and> simulation (opacity_tween j w0 t w) = simulation w"
  by (simp add: opacity_tween_def split: option.splits prod.splits)

lemma circle_tween_frame:
  "nodes_of (circle_tween j k w0 t w) = nodes_of w \<and> simulation (circle_tween j k w0 t w) = simulation w"
  by (simp add: circle_tween_def split: option.splits prod.splits)

lemma image_tween_frame:
  "nodes_of (image_tween j k s w0 t w) = nodes_of w \<and> simulation (image_tween j k s w0 t w) = simulation w"
  by (simp add: image_tween_def split: option.splits prod.splits)

lemma clip_tween_frame:
  "nodes_of (clip_tween k s w0 t w) = nodes_of w \<and> simulation (clip_tween k s w0 t w) = simulation w"
  by (simp add: clip_tween_def nodes_of_def split: option.splits)

lemma clip_element_tween_frame:
  "nodes_of (clip_element_tween k s w0 t w) = nodes_of w
   \<and> simulation (clip_element_tween k s w0 t w) = simulation w"
  by (simp add: clip_element_tween_def nodes_of_def split: option.splits)

lemma font_tween_frame:
  "nodes_of (font_tween j k s w0 t w) = nodes_of w \<and> simulation (font_tween j k s w0 t w) = simulation w"
  by (simp add: font_tween_def split: option.splits prod.splits)

lemma map_update_nth_inv: "(\<And>x. h (f x) = h x) \<Longrightarrow> map h (update_nth k f xs) = map h xs"
  by (simp add: update_nth_def map_update list_update_same_conv)

lemma entrance_tweens_static:
  "static_attributes (opacity_tween j w0 t w) = static_attributes w"
  "static_attributes (circle_tween j k w0 t w) = static_attributes w"
  "static_attributes (image_tween j k s w0 t w) = static_attributes w"
  "static_attributes (clip_tween k s w0 t w) = static_attributes w"
  "static_attributes (clip_element_tween k s w0 t w) = static_attributes w"
  "static_attributes (font_tween j k s w0 t w) = static_attributes w"
  unfolding static_attributes_def
  by (auto simp: opacity_tween_def circle_tween_def image_tween_def clip_tween_def font_tween_def
      clip_element_tween_def update_g_def comp_def case_prod_unfold
      intro!: map_update_nth_inv split: option.splits prod.splits)

lemma title_transitions_frame:
  assumes "tr \<in> set (title_transitions j delay g)"
  shows "nodes_of (tr_tween tr w0 t w') = nodes_of w' \<and> simulation (tr_tween tr w0 t w') = simulation w'
       \<and> static_attributes (tr_tween tr w0 t w') = static_attributes w'"
  using assms
  by (auto simp: title_transitions_def font_tween_frame entrance_tweens_static
      split: option.splits)

lemma animateNodeEntrance_frame:
  assumes "tr \<in> set (fst (animateNodeEntrance querySelector j i w))"
  shows "nodes_of (tr_tween tr w0 t w') = nodes_of w' \<and> simulation (tr_tween tr w0 t w') = simulation w'
       \<and> static_attributes (tr_tween tr w0 t w') = static_attributes w'"
proof (cases "nth_opt (nodeGroup w) j")
  case None
  then show ?thesis using assms by (simp add: animateNodeEntrance_def)
next
  case (Some p)
  obtain d g where p: "p = (d, g)" by (cases p)
  define delay where "delay = real i * ENTRANCE_ANIMATION_DELAY"
  define imageSize where "imageSize = node_r d - nodeSize_clipPadding"
  define scheduled where "scheduled =
     [\<lparr> tr_delay = delay, tr_duration = OPACITY_ANIMATION_DURATION,
        tr_tween = opacity_tween j \<rparr>] @
     map (\<lambda>k. \<lparr> tr_delay = delay, tr_duration = OPACITY_ANIMATION_DURATION,
                 tr_tween = circle_tween j k \<rparr>) [0..<length (g_circles g)] @
     map (\<lambda>k. \<lparr> tr_delay = delay, tr_duration = ENTRANCE_ANIMATION_DURATION,
                 tr_tween = image_tween j k imageSize \<rparr>) [0..<length (g_images g)]"
  define clip where "clip = (\<lambda>selected.
     case selected of
       None \<Rightarrow> []
     | Some (ClipCircleElement k) \<Rightarrow>
         [\<lparr> tr_delay = delay, tr_duration = ENTRANCE_ANIMATION_DURATION,
            tr_tween = clip_tween k imageSize \<rparr>]
     | Some (ClipPathElement k) \<Rightarrow>
         [\<lparr> tr_delay = delay, tr_duration = ENTRANCE_ANIMATION_DURATION,
            tr_tween = clip_element_tween k imageSize \<rparr>])"
  have s: "nodes_of (tr_tween x w0 t w') = nodes_of w' \<and> simulation (tr_tween x w0 t w') = simulation w'
       \<and> static_attributes (tr_tween x w0 t w') = static_attributes w'"
    if "x \<in> set scheduled" for x
    using that
    by (auto simp: scheduled_def opacity_tween_frame circle_tween_frame image_tween_frame
        entrance_tweens_static)
  have c: "nodes_of (tr_tween x w0 t w') = nodes_of w' \<and> simulation (tr_tween x w0 t w') = simulation w'
       \<and> static_attributes (tr_tween x w0 t w') = static_attributes w'"
    if "x \<in> set (clip selected)" for x selected
  proof (cases selected)
    case None
    then show ?thesis using that by (simp add: clip_def)
  next
    case (Some el)
    then show ?thesis using that
      by (cases el)
        (auto simp: clip_def clip_tween_frame clip_element_tween_frame entrance_tweens_static)
  qed
  show ?thesis
  proof (cases "querySelector (''#clip-'' @ node_id d @ '' circle'') (defs w)")
    case (Inl e)
    have "fst (animateNodeEntrance querySelector j i w) = scheduled"
      using Some p Inl unfolding scheduled_def delay_def imageSize_def
      by (simp add: animateNodeEntrance_def Let_def)
    then have "tr \<in> set scheduled" using assms by simp
    then show ?thesis by (rule s)
  next
    case (Inr selected)
    have "fst (animateNodeEntrance querySelector j i w) =
        scheduled @ clip selected @
          (if node_type d = TypeTitle then title_transitions j delay g else [])"
      using Some p Inr unfolding scheduled_def clip_def delay_def imageSize_def
      by (simp add: animateNodeEntrance_def Let_def)
    then have "tr \<in> set scheduled \<or> tr \<in> set (clip selected)
        \<or> tr \<in> set (title_transitions j delay g)"
      using assms by (auto split: if_splits)
    then show ?thesis using s c title_transitions_frame by blast
  qed
qed

lemma animateNodeEntrance_each_set:
  assumes "tr \<in> set (fst (animateNodeEntrance_each querySelector w is))"
  shows "\<exists>i. tr \<in> set (fst (animateNodeEntrance querySelector i i w))"
  using assms
proof (induction "is")
  case Nil
  then show ?case by simp
next
  case (Cons i rest)
  obtain trs e where a: "animateNodeEntrance querySelector i i w = (trs, e)"
    by (cases "animateNodeEntrance querySelector i i w")
  obtain trs' e' where b: "animateNodeEntrance_each querySelector w rest = (trs', e')"
    by (cases "animateNodeEntrance_each querySelector w rest")
  have "tr \<in> set trs \<or> tr \<in> set trs'"
    using Cons.prems a b by (cases e) auto
  then show ?case
  proof
    assume "tr \<in> set trs"
    then show ?thesis using a by (intro exI [of _ i]) simp
  next
    assume "tr \<in> set trs'"
    then show ?thesis using Cons.IH b by simp
  qed
qed

lemma initializeNode_r [simp]: "node_r (initializeNode i n) = node_r n"
  by (simp add: initializeNode_def Let_def split: option.splits)

lemma initializeNodes_r_from:
  "map node_r (map (\<lambda>(i, n). initializeNode i n) (enumerate k items)) = map node_r items"
  by (induction items arbitrary: k) simp_all

lemma initializeNodes_r: "map node_r (initializeNodes items) = map node_r items"
  unfolding initializeNodes_def by (rule initializeNodes_r_from)

lemma CollageMonde_effect_Some:
  assumes "CollageMonde_effect querySelector groups items svg = Some c"
  shows "nodes_of (col_world c) = initializeNodes items"
    and "sim_forces (simulation (col_world c)) ''collide'' =
      Some (ForceCollide
        \<lparr> cf_radius = (\<lambda>d. node_r d + nodeSize_holePadding),
          cf_strength = forces_collide,
          cf_iterations = performance_collisionIterations,
          cf_radii = map (\<lambda>d. node_r d + nodeSize_holePadding) items \<rparr>)"
    and "tr \<in> set (col_transitions c) \<Longrightarrow>
           \<exists>i. tr \<in> set (fst (animateNodeEntrance querySelector i i (col_world c)))"
proof -
  obtain w where cw: "col_world c = w"
    and ct: "col_transitions c =
               fst (animateNodeEntrance_each querySelector w [0..<length (initializeNodes items)])"
    and ng: "nodeGroup w = map (\<lambda>d. (d, new_g d)) (initializeNodes items)"
    and sim: "simulation w = build_simulation
                (createClusters groups container_width container_height) (initializeNodes items)"
    using assms
    by (auto simp: CollageMonde_effect_def Let_def case_prod_unfold split: if_splits)
  show "nodes_of (col_world c) = initializeNodes items"
    by (simp add: cw ng nodes_of_def comp_def)
  have "map (\<lambda>d. node_r d + nodeSize_holePadding) (initializeNodes items)
      = map (\<lambda>d. node_r d + nodeSize_holePadding) items"
  proof -
    have "map (\<lambda>r. r + nodeSize_holePadding) (map node_r (initializeNodes items))
        = map (\<lambda>r. r + nodeSize_holePadding) (map node_r items)"
      by (simp only: initializeNodes_r)
    then show ?thesis by (simp add: comp_def)
  qed
  then show "sim_forces (simulation (col_world c)) ''collide'' =
      Some (ForceCollide
        \<lparr> cf_radius = (\<lambda>d. node_r d + nodeSize_holePadding),
          cf_strength = forces_collide,
          cf_iterations = performance_collisionIterations,
          cf_radii = map (\<lambda>d. node_r d + nodeSize_holePadding) items \<rparr>)"
    by (simp add: cw sim build_simulation_collide)
  show "\<exists>i. tr \<in> set (fst (animateNodeEntrance querySelector i i (col_world c)))"
    if "tr \<in> set (col_transitions c)"
    using that unfolding ct cw by (rule animateNodeEntrance_each_set)
qed

text \<open>
  Claim C9. Every frame of every transition that the effect schedules for the entrance
  leaves the node objects as they are (all fields: \<open>r\<close>, position, velocity) and leaves
  the simulation as it is; of the rendered attributes it leaves placement, classes,
  image sources and filters, and clip ids as they are, so it can change only opacity,
  circle radii, image boxes, font sizes and the radius of what the selector selected
  under \<open>defs\<close>. This holds whatever \<open>querySelector\<close> does, and also for the
  transitions scheduled before an exception ended the effect. The nodes of the built
  collage have their constructed radii, and the collision force registered by the effect
  holds, for each node, its constructed radius plus the padding, before any frame and
  after any entrance frame.
\<close>

theorem entrance_is_cosmetic:
  assumes "CollageMonde_effect querySelector groups items svg = Some c"
    and "tr \<in> set (col_transitions c)"
  shows "nodes_of (tr_tween tr w0 t w) = nodes_of w
       \<and> simulation (tr_tween tr w0 t w) = simulation w
       \<and> static_attributes (tr_tween tr w0 t w) = static_attributes w
       \<and> map node_r (nodes_of (col_world c)) = map node_r items
       \<and> sim_forces (simulation (col_world c)) ''collide'' =
           Some (ForceCollide
             \<lparr> cf_radius = (\<lambda>d. node_r d + nodeSize_holePadding),
               cf_strength = forces_collide,
               cf_iterations = performance_collisionIterations,
               cf_radii = map (\<lambda>d. node_r d + nodeSize_holePadding) items \<rparr>)
       \<and> sim_forces (simulation (tr_tween tr w0 t (col_world c))) ''collide'' =
           Some (ForceCollide
             \<lparr> cf_radius = (\<lambda>d. node_r d + nodeSize_holePadding),
               cf_strength = forces_collide,
               cf_iterations = performance_collisionIterations,
               cf_radii = map (\<lambda>d. node_r d + nodeSize_holePadding) items \<rparr>)"
proof -
  note e = CollageMonde_effect_Some [OF assms(1)]
  obtain i where "tr \<in> set (fst (animateNodeEntrance querySelector i i (col_world c)))"
    using e(3) [OF assms(2)] by blast
  then have f: "nodes_of (tr_tween tr w0 t w') = nodes_of w'
              \<and> simulation (tr_tween tr w0 t w') = simulation w'
              \<and> static_attributes (tr_tween tr w0 t w') = static_attributes w'" for w'
    by (rule animateNodeEntrance_frame)
  have r: "map node_r (nodes_of (col_world c)) = map node_r items"
    by (simp add: e(1) initializeNodes_r)
  show ?thesis using f [of w] f [of "col_world c"] r e(2) by simp
qed

lemma initializeNode_id [simp]:
  "node_id (initializeNode i n) = node_id n" "node_type (initializeNode i n) = node_type n"
  by (simp_all add: initializeNode_def Let_def split: option.splits)

theorem entrance_is_cosmetic_witness:
  "\<exists>c tr. CollageMonde_effect select_by_id [] [createTitleNode] True = Some c
     \<and> col_thrown c = None
     \<and> tr \<in> set (col_transitions c)
     \<and> nodes_of (tr_tween tr (col_world c) (1 / 2) (col_world c)) = nodes_of (col_world c)
     \<and> map node_r (nodes_of (tr_tween tr (col_world c) (1 / 2) (col_world c))) = [200]
     \<and> map (g_opacity \<circ> snd) (nodeGroup (col_world c)) = [0]
     \<and> map (g_opacity \<circ> snd) (nodeGroup (tr_tween tr (col_world c) (1 / 2) (col_world c))) = [1 / 2]"
proof -
  obtain c where c: "CollageMonde_effect select_by_id [] [createTitleNode] True = Some c"
    by (simp add: CollageMonde_effect_def Let_def case_prod_unfold)
  obtain w where cw: "col_world c = w"
    and ct: "col_transitions c = fst (animateNodeEntrance_each select_by_id w [0])"
    and th: "col_thrown c = snd (animateNodeEntrance_each select_by_id w [0])"
    and ng: "nodeGroup w = [(initializeNode 0 createTitleNode, new_g (initializeNode 0 createTitleNode))]"
    and ds: "defs w = createClipPaths [] [createTitleNode]"
    using c
    by (auto simp: CollageMonde_effect_def Let_def case_prod_unfold initializeNodes_def
        simp del: animateNodeEntrance_each.simps)
  have sel: "select_by_id (''#clip-'' @ node_id (initializeNode 0 createTitleNode) @ '' circle'')
               (defs w) = Inr (Some (ClipCircleElement 0))"
    by (simp add: ds select_by_id_def createClipPaths_def createTitleNode_def)
  define tr where "tr = \<lparr> tr_delay = 0, tr_duration = OPACITY_ANIMATION_DURATION,
                  tr_tween = opacity_tween 0 \<rparr>"
  have mem: "tr \<in> set (col_transitions c)"
    using sel by (simp add: ct animateNodeEntrance_def nth_opt_def ng Let_def tr_def)
  have nothrow: "col_thrown c = None"
    using sel by (simp add: th animateNodeEntrance_def nth_opt_def ng Let_def)
  note t = entrance_is_cosmetic [OF c mem, of "col_world c" "1 / 2" "col_world c"]
  have o0: "map (g_opacity \<circ> snd) (nodeGroup (col_world c)) = [0]"
    by (simp add: cw ng new_g_def Let_def createTitleNode_def createTitleElements_def
        initializeNode_def split: NodeType.splits)
  have o1: "map (g_opacity \<circ> snd) (nodeGroup (tr_tween tr (col_world c) (1 / 2) (col_world c)))
      = [1 / 2]"
    using o0
    by (simp add: cw ng tr_def opacity_tween_def nth_opt_def update_g_def update_nth_def
        interpolate_def)
  have r: "map node_r (nodes_of (tr_tween tr (col_world c) (1 / 2) (col_world c))) = [200]"
    using t by (simp add: createTitleNode_def nodeSize_title_def)
  show ?thesis using c nothrow mem t r o0 o1 by (intro exI [of _ c] exI [of _ tr]) simp
qed

subsection \<open>Frames of the radius animation\<close>

lemma map_fst_update_nth_apfst: "map fst (update_nth i (apfst f) xs) = update_nth i f (map fst xs)"
  by (simp add: update_nth_def map_update)

lemma nodes_of_update_node: "nodes_of (update_node j f w) = update_nth j f (nodes_of w)"
  by (simp add: nodes_of_def update_node_def map_fst_update_nth_apfst)

lemma simulation_update_node [simp]: "simulation (update_node j f w) = simulation w"
  by (simp add: update_node_def)

lemma map_node_r_update_nth:
  "map node_r (update_nth j (\<lambda>d. d\<lparr> node_r := v \<rparr>) ns) = (map node_r ns)[j := v]"
  by (simp add: update_nth_def map_update list_update_beyond)

lemma nodeGroup_updateCollisionForce [simp]:
  "nodeGroup (updateCollisionForce w) = nodeGroup w"
  by (simp add: updateCollisionForce_def)

lemma nodeGroup_restartSimulationIfNeeded [simp]:
  "nodeGroup (restartSimulationIfNeeded w) = nodeGroup w"
  by (simp add: restartSimulationIfNeeded_def)

lemma sim_forces_restartSimulationIfNeeded [simp]:
  "sim_forces (simulation (restartSimulationIfNeeded w)) = sim_forces (simulation w)"
  by (simp add: restartSimulationIfNeeded_def)

lemma sim_alpha_updateCollisionForce [simp]:
  "sim_alpha (simulation (updateCollisionForce w)) = sim_alpha (simulation w)"
  "sim_running (simulation (updateCollisionForce w)) = sim_running (simulation w)"
  by (simp_all add: updateCollisionForce_def simulation_force_def)

lemma nodeGroup_radius_frame:
  "nodeGroup (radius_frame j tween t w) = nodeGroup (update_node j (\<lambda>d. d\<lparr> node_r := tween t \<rparr>) w)"
  by (simp add: radius_frame_def)

lemma nodes_of_radius_frame:
  "nodes_of (radius_frame j tween t w) = update_nth j (\<lambda>d. d\<lparr> node_r := tween t \<rparr>) (nodes_of w)"
  using nodeGroup_radius_frame [of j tween t w] nodes_of_update_node [of j _ w]
  by (simp add: nodes_of_def)

lemma radius_frame_r:
  "map node_r (nodes_of (radius_frame j tween t w)) = (map node_r (nodes_of w))[j := tween t]"
  by (simp add: nodes_of_radius_frame map_node_r_update_nth)

lemma radius_frame_collide:
  "sim_forces (simulation (radius_frame j tween t w)) ''collide'' =
     Some (ForceCollide
       \<lparr> cf_radius = (\<lambda>n. node_r n + nodeSize_holePadding),
         cf_strength = forces_collide,
         cf_iterations = performance_collisionIterations,
         cf_radii = map (\<lambda>n. node_r n + nodeSize_holePadding)
                      (nodes_of (radius_frame j tween t w)) \<rparr>)"
proof -
  have "nodes_of (radius_frame j tween t w)
      = nodes_of (update_node j (\<lambda>d. d\<lparr> node_r := tween t \<rparr>) w)"
    by (simp add: nodes_of_def nodeGroup_radius_frame)
  then show ?thesis
    by (simp add: radius_frame_def updateCollisionForce_collide)
qed

lemma radius_frame_alpha:
  "sim_alpha (simulation (radius_frame j tween t w)) =
     (if sim_alpha (simulation w) < performance_restartAlpha then performance_restartAlpha
      else sim_alpha (simulation w))"
  "sim_running (simulation (radius_frame j tween t w)) =
     (if sim_alpha (simulation w) < performance_restartAlpha then True
      else sim_running (simulation w))"
  by (simp_all add: radius_frame_def restartSimulationIfNeeded_def)

lemma handleNodeHover_Some:
  assumes "nth_opt (nodeGroup w) j = Some (d, g)"
  shows "fst (handleNodeHover j w) = update_node j capture_originalR w"
    and "\<exists>rest. snd (handleNodeHover j w) =
           radius_transition j (interpolate (node_r d) nodeSize_hover) # rest"
  using assms by (simp_all add: handleNodeHover_def Let_def)

lemma handleNodeLeave_Some:
  assumes "nth_opt (nodeGroup w) j = Some (d, g)"
  shows "fst (handleNodeLeave j w) = w"
    and "\<exists>rest. snd (handleNodeLeave j w) =
           radius_transition j (interpolate (node_r d) (leave_targetSize d)) # rest"
  using assms by (simp_all add: handleNodeLeave_def Let_def)

text \<open>
  Claim C3. The radius transition of \<open>handleNodeHover\<close> runs the frame function with the
  tween from the node's radius to the hover size, that of \<open>handleNodeLeave\<close> with the
  tween from the node's radius to the leave target. Every frame, at any time \<open>t\<close> and in
  any state: (a) writes \<open>tween t\<close> as the radius of the node, no other radius changing;
  (b) registers a collision force whose accessor is the current radius plus
  \<open>holePadding\<close> and whose radii are those values for the nodes as they are after the write;
  (c) when alpha is below \<open>restartAlpha = 0.1\<close>, sets alpha to it and restarts the
  stepper, and otherwise leaves both; so alpha is at least the threshold after the frame.
\<close>

theorem radius_frame_effects:
  assumes "nth_opt (nodeGroup w) j = Some (d, g)"
  shows "(\<exists>rest. snd (handleNodeHover j w) =
            radius_transition j (interpolate (node_r d) nodeSize_hover) # rest)
       \<and> (\<exists>rest. snd (handleNodeLeave j w) =
            radius_transition j (interpolate (node_r d) (leave_targetSize d)) # rest)
       \<and> tr_tween (radius_transition j tween) w0 t w' = radius_frame j tween t w'
       \<and> map node_r (nodes_of (radius_frame j tween t w')) = (map node_r (nodes_of w'))[j := tween t]
       \<and> sim_forces (simulation (radius_frame j tween t w')) ''collide'' =
           Some (ForceCollide
             \<lparr> cf_radius = (\<lambda>n. node_r n + nodeSize_holePadding),
               cf_strength = forces_collide,
               cf_iterations = performance_collisionIterations,
               cf_radii = map (\<lambda>n. node_r n + nodeSize_holePadding)
                            (nodes_of (radius_frame j tween t w')) \<rparr>)
       \<and> (sim_alpha (simulation w') < performance_restartAlpha \<longrightarrow>
            sim_alpha (simulation (radius_frame j tween t w')) = performance_restartAlpha
            \<and> sim_running (simulation (radius_frame j tween t w')))
       \<and> (\<not> sim_alpha (simulation w') < performance_restartAlpha \<longrightarrow>
            sim_alpha (simulation (radius_frame j tween t w')) = sim_alpha (simulation w')
            \<and> sim_running (simulation (radius_frame j tween t w')) = sim_running (simulation w'))
       \<and> performance_restartAlpha \<le> sim_alpha (simulation (radius_frame j tween t w'))
       \<and> performance_restartAlpha = 1 / 10"
  using handleNodeHover_Some(2) [OF assms] handleNodeLeave_Some(2) [OF assms]
    radius_frame_r [of j tween t w'] radius_frame_collide [of j tween t w']
  by (simp add: radius_frame_alpha radius_transition_def performance_restartAlpha_def)

lemma scenario_node_r: "node_r scenario_node = 60"
  by (simp add: scenario_node_def createAlbumNode_def randomDelta_def config_defs)

lemma scenario_world_0:
  "nth_opt (nodeGroup scenario_world) 0 = Some (scenario_node, new_g scenario_node)"
  by (simp add: scenario_world_def nth_opt_def)

theorem radius_frame_effects_witness:
  "nth_opt (nodeGroup scenario_world) 0 = Some (scenario_node, new_g scenario_node)
   \<and> map node_r (nodes_of scenario_world) = [60]
   \<and> map node_r (nodes_of (radius_frame 0 (interpolate 60 70) (1 / 2) scenario_world)) = [65]
   \<and> sim_alpha (simulation scenario_world) = 1 / 20
   \<and> sim_alpha (simulation (radius_frame 0 (interpolate 60 70) (1 / 2) scenario_world)) = 1 / 10
   \<and> sim_running (simulation (radius_frame 0 (interpolate 60 70) (1 / 2) scenario_world))
   \<and> (\<exists>cf. sim_forces (simulation (radius_frame 0 (interpolate 60 70) (1 / 2) scenario_world))
              ''collide'' = Some (ForceCollide cf)
         \<and> cf_radii cf = [67])"
proof -
  note t = radius_frame_effects [OF scenario_world_0, of "interpolate 60 70" scenario_world
      "1 / 2" scenario_world]
  have n: "map node_r (nodes_of scenario_world) = [60]"
    by (simp add: nodes_of_def scenario_world_def scenario_node_r)
  have a: "sim_alpha (simulation scenario_world) = 1 / 20"
    by (simp add: scenario_world_def)
  have r: "map node_r (nodes_of (radius_frame 0 (interpolate 60 70) (1 / 2) scenario_world)) = [65]"
    using t n by (simp add: interpolate_def)
  then have "map (\<lambda>n. node_r n + nodeSize_holePadding)
               (nodes_of (radius_frame 0 (interpolate 60 70) (1 / 2) scenario_world)) = [67]"
    by (auto simp: nodeSize_holePadding_def map_eq_Cons_conv)
  then show ?thesis
    using t n a r scenario_world_0 by (simp add: performance_restartAlpha_def)
qed

subsection \<open>Hover and leave\<close>

lemma nth_opt_map: "nth_opt (map f xs) j = map_option f (nth_opt xs j)"
  by (simp add: nth_opt_def)

lemma nth_opt_update_node:
  "nth_opt (nodeGroup (update_node k f w)) j =
     (if k = j then map_option (apfst f) (nth_opt (nodeGroup w) j) else nth_opt (nodeGroup w) j)"
  by (simp add: update_node_def nth_opt_update_nth)

lemma mouseenter_Some:
  assumes "nth_opt (nodeGroup w) j = Some (d, g)" "node_type d \<noteq> TypeTitle"
  shows "mouseenter j w = handleNodeHover j w"
  using assms by (simp add: mouseenter_def)

lemma mouseleave_Some:
  assumes "nth_opt (nodeGroup w) j = Some (d, g)" "node_type d \<noteq> TypeTitle"
  shows "mouseleave j w = handleNodeLeave j w"
  using assms by (simp add: mouseleave_def)

lemma fst_mouseenter:
  "fst (mouseenter k w) = w \<or> fst (mouseenter k w) = update_node k capture_originalR w"
  by (auto simp: mouseenter_def handleNodeHover_def Let_def split: option.splits)

lemma fst_mouseleave: "fst (mouseleave k w) = w"
  by (auto simp: mouseleave_def handleNodeLeave_def Let_def split: option.splits)

lemma capture_originalR_set:
  "originalR d = Some v \<Longrightarrow> v \<noteq> 0 \<Longrightarrow> capture_originalR d = d"
  by (simp add: capture_originalR_def falsy_def)

lemma length_update_node [simp]:
  "length (nodeGroup (update_node k f w)) = length (nodeGroup w)"
  by (simp add: update_node_def)

lemma length_step [simp]: "length (nodeGroup (step ev w)) = length (nodeGroup w)"
proof (cases ev)
  case (MouseEnter k)
  then show ?thesis using fst_mouseenter [of k w] by auto
next
  case (MouseLeave k)
  then show ?thesis by (simp add: fst_mouseleave)
next
  case (RadiusFrame k a b t)
  then show ?thesis by (simp add: nodeGroup_radius_frame)
next
  case Tick
  then show ?thesis by (simp add: on_tick_def updateVisualsOnTick_def)
qed

lemma length_run [simp]: "length (nodeGroup (run evs w)) = length (nodeGroup w)"
  by (induction evs arbitrary: w) (simp_all add: run_def)

lemma step_keeps_originalR:
  assumes "nth_opt (nodeGroup w) j = Some (d, g)" "originalR d = Some v" "v \<noteq> 0"
  shows "\<exists>d' g'. nth_opt (nodeGroup (step ev w)) j = Some (d', g') \<and> originalR d' = Some v"
proof (cases ev)
  case (MouseEnter k)
  from fst_mouseenter [of k w] show ?thesis
  proof
    assume "fst (mouseenter k w) = w"
    then show ?thesis using MouseEnter assms by simp
  next
    assume "fst (mouseenter k w) = update_node k capture_originalR w"
    then show ?thesis
      using MouseEnter assms capture_originalR_set [OF assms(2,3)]
      by (simp add: nth_opt_update_node)
  qed
next
  case (MouseLeave k)
  then show ?thesis using assms by (simp add: fst_mouseleave)
next
  case (RadiusFrame k a b t)
  then show ?thesis using assms
    by (simp add: nodeGroup_radius_frame nth_opt_update_node)
next
  case Tick
  then show ?thesis using assms
    by (simp add: on_tick_def updateVisualsOnTick_def nth_opt_map tick_g_def)
qed

lemma run_keeps_originalR:
  assumes "nth_opt (nodeGroup w) j = Some (d, g)" "originalR d = Some v" "v \<noteq> 0"
  shows "\<exists>d' g'. nth_opt (nodeGroup (run evs w)) j = Some (d', g') \<and> originalR d' = Some v"
  using assms
proof (induction evs arbitrary: w d g)
  case Nil
  then show ?case by (simp add: run_def)
next
  case (Cons ev evs)
  obtain d' g' where "nth_opt (nodeGroup (step ev w)) j = Some (d', g')" "originalR d' = Some v"
    using step_keeps_originalR [OF Cons.prems] by blast
  from Cons.IH [OF this Cons.prems(3)] show ?case by (simp add: run_def)
qed

lemma capture_originalR_resting:
  assumes "node_r d \<noteq> 0" "originalR d \<noteq> Some 0"
  shows "capture_originalR d =
           d\<lparr> originalR := Some (case originalR d of None \<Rightarrow> node_r d | Some v \<Rightarrow> v) \<rparr>"
  using assms by (cases "originalR d") (simp_all add: capture_originalR_def falsy_def)

lemma interpolate_1 [simp]: "interpolate a b 1 = b"
  by (simp add: interpolate_def)

lemma hd_handleNodeLeave:
  assumes "nth_opt (nodeGroup w) j = Some (d, g)"
  shows "hd (snd (handleNodeLeave j w)) =
           radius_transition j (interpolate (node_r d) (leave_targetSize d))"
  using assms by (simp add: handleNodeLeave_def Let_def)

text \<open>
  Claim C2. Take a node that is not the title, whose radius and whose recorded
  \<open>originalR\<close>, if there is one, are not zero (the radii the component produces are
  positive). Its resting radius is the recorded \<open>originalR\<close>, or its radius when it was
  never hovered. After the pointer enters and at once leaves, with no frame in between,
  \<open>originalR\<close> holds the resting radius (for a node never hovered: the radius it had
  before the hover), the radius is unchanged, and the transition that the leave returns
  runs the frames of the tween from the current radius to the resting radius: its frame
  at time \<open>t\<close> writes \<open>interpolate r resting t\<close>, its last frame the resting radius. After
  the first hover, whatever sequence of hovers, leaves, radius frames and ticks follows,
  \<open>originalR\<close> keeps that value: it is written by the first hover only.
\<close>

theorem hover_round_trip:
  assumes "nth_opt (nodeGroup w) j = Some (d, g)" and "node_type d \<noteq> TypeTitle"
    and "node_r d \<noteq> 0" and "originalR d \<noteq> Some 0"
  shows "nth_opt (nodeGroup (fst (mouseleave j (fst (mouseenter j w))))) j =
           Some (d\<lparr> originalR := Some (case originalR d of None \<Rightarrow> node_r d | Some v \<Rightarrow> v) \<rparr>, g)
       \<and> (\<exists>rest. snd (mouseleave j (fst (mouseenter j w))) =
             radius_transition j
               (interpolate (node_r d) (case originalR d of None \<Rightarrow> node_r d | Some v \<Rightarrow> v)) # rest)
       \<and> (\<forall>w0 t w'.
             tr_tween (hd (snd (mouseleave j (fst (mouseenter j w))))) w0 t w' =
               radius_frame j
                 (interpolate (node_r d) (case originalR d of None \<Rightarrow> node_r d | Some v \<Rightarrow> v)) t w')
       \<and> (\<forall>w0 t w'.
             map node_r
               (nodes_of (tr_tween (hd (snd (mouseleave j (fst (mouseenter j w))))) w0 t w')) =
             (map node_r (nodes_of w'))
               [j := interpolate (node_r d)
                       (case originalR d of None \<Rightarrow> node_r d | Some v \<Rightarrow> v) t])
       \<and> (\<forall>w0 w'.
             map node_r
               (nodes_of (tr_tween (hd (snd (mouseleave j (fst (mouseenter j w))))) w0 1 w')) =
             (map node_r (nodes_of w'))
               [j := (case originalR d of None \<Rightarrow> node_r d | Some v \<Rightarrow> v)])
       \<and> leave_targetSize
            (d\<lparr> originalR := Some (case originalR d of None \<Rightarrow> node_r d | Some v \<Rightarrow> v) \<rparr>) =
           (case originalR d of None \<Rightarrow> node_r d | Some v \<Rightarrow> v)
       \<and> (\<forall>evs. \<exists>d' g'.
             nth_opt (nodeGroup (run evs (fst (mouseenter j w)))) j = Some (d', g')
             \<and> originalR d' = Some (case originalR d of None \<Rightarrow> node_r d | Some v \<Rightarrow> v))"
proof -
  define resting where "resting = (case originalR d of None \<Rightarrow> node_r d | Some v \<Rightarrow> v)"
  have nz: "resting \<noteq> 0"
    using assms(3,4) by (cases "originalR d") (simp_all add: resting_def)
  let ?d1 = "d\<lparr> originalR := Some resting \<rparr>"
  let ?w1 = "fst (mouseenter j w)"
  have w1: "?w1 = update_node j capture_originalR w"
    using mouseenter_Some [OF assms(1,2)] handleNodeHover_Some(1) [OF assms(1)] by simp
  have cap: "capture_originalR d = ?d1"
    using capture_originalR_resting [OF assms(3,4)] by (simp add: resting_def)
  have n1: "nth_opt (nodeGroup ?w1) j = Some (?d1, g)"
    using assms(1) cap by (simp add: w1 nth_opt_update_node)
  have ty: "node_type ?d1 \<noteq> TypeTitle" using assms(2) by simp
  have l: "mouseleave j ?w1 = handleNodeLeave j ?w1"
    using mouseleave_Some [OF n1 ty] .
  have tg: "leave_targetSize ?d1 = resting"
    using nz by (simp add: leave_targetSize_def)
  have 1: "nth_opt (nodeGroup (fst (mouseleave j ?w1))) j = Some (?d1, g)"
    using n1 by (simp add: fst_mouseleave)
  have 2: "\<exists>rest. snd (mouseleave j ?w1) =
             radius_transition j (interpolate (node_r d) resting) # rest"
    using handleNodeLeave_Some(2) [OF n1] tg by (simp add: l)
  have h: "hd (snd (mouseleave j ?w1)) = radius_transition j (interpolate (node_r d) resting)"
    using hd_handleNodeLeave [OF n1] tg by (simp add: l)
  have 3: "\<forall>w0 t w'. tr_tween (hd (snd (mouseleave j ?w1))) w0 t w' =
               radius_frame j (interpolate (node_r d) resting) t w'"
    by (simp add: h radius_transition_def)
  have 4: "\<forall>w0 t w'. map node_r (nodes_of (tr_tween (hd (snd (mouseleave j ?w1))) w0 t w')) =
             (map node_r (nodes_of w'))[j := interpolate (node_r d) resting t]"
    by (simp add: 3 radius_frame_r)
  have 5: "\<forall>w0 w'. map node_r (nodes_of (tr_tween (hd (snd (mouseleave j ?w1))) w0 1 w')) =
             (map node_r (nodes_of w'))[j := resting]"
    by (simp add: 4)
  have 6: "\<exists>d' g'. nth_opt (nodeGroup (run evs ?w1)) j = Some (d', g')
             \<and> originalR d' = Some resting" for evs
    using run_keeps_originalR [OF n1 _ nz, of evs] by simp
  show ?thesis
    unfolding resting_def [symmetric] using 1 2 3 4 5 tg 6 by blast
qed


lemma scenario_rehover_0:
  "nth_opt (nodeGroup scenario_rehover) 0 =
     Some (scenario_node\<lparr> node_r := 65, originalR := Some 60 \<rparr>, new_g scenario_node)"
proof -
  have ty: "node_type scenario_node \<noteq> TypeTitle" by (simp add: scenario_node_def)
  have o: "originalR scenario_node = None" by (simp add: scenario_node_def createAlbumNode_def)
  have "fst (mouseenter 0 scenario_world) = update_node 0 capture_originalR scenario_world"
    using mouseenter_Some [OF scenario_world_0 ty] handleNodeHover_Some(1) [OF scenario_world_0]
    by simp
  then show ?thesis
    using scenario_world_0 o scenario_node_r
    by (simp add: scenario_rehover_def run_def nodeGroup_radius_frame nth_opt_update_node
        capture_originalR_def falsy_def interpolate_def)
qed

lemma singleton_nth_opt: "length xs = 1 \<Longrightarrow> nth_opt xs 0 = Some x \<Longrightarrow> xs = [x]"
  by (cases xs) (auto simp: nth_opt_def)

lemma length_scenario_world: "length (nodeGroup scenario_world) = 1"
  by (simp add: scenario_world_def)

lemma length_scenario_rehover: "length (nodeGroup scenario_rehover) = 1"
  by (simp add: scenario_rehover_def length_scenario_world)

theorem hover_round_trip_witness:
  "nth_opt (nodeGroup scenario_world) 0 = Some (scenario_node, new_g scenario_node)
   \<and> node_type scenario_node \<noteq> TypeTitle \<and> originalR scenario_node = None
   \<and> node_r scenario_node = 60
   \<and> map (originalR \<circ> fst)
        (nodeGroup (fst (mouseleave 0 (fst (mouseenter 0 scenario_world))))) = [Some 60]
   \<and> map node_r (nodes_of (tr_tween (hd (snd (mouseleave 0 (fst (mouseenter 0 scenario_world)))))
        scenario_world 1 (fst (mouseenter 0 scenario_world)))) = [60]
   \<and> map node_r (nodes_of scenario_rehover) = [65]
   \<and> map (originalR \<circ> fst) (nodeGroup scenario_rehover) = [Some 60]
   \<and> map (originalR \<circ> fst)
        (nodeGroup (fst (mouseleave 0 (fst (mouseenter 0 scenario_rehover))))) = [Some 60]
   \<and> map node_r (nodes_of (tr_tween (hd (snd (mouseleave 0 (fst (mouseenter 0 scenario_rehover)))))
        scenario_rehover (1 / 2) (fst (mouseenter 0 scenario_rehover)))) = [125 / 2]
   \<and> map node_r (nodes_of (tr_tween (hd (snd (mouseleave 0 (fst (mouseenter 0 scenario_rehover)))))
        scenario_rehover 1 (fst (mouseenter 0 scenario_rehover)))) = [60]
   \<and> map (originalR \<circ> fst)
        (nodeGroup (run [MouseLeave 0, RadiusFrame 0 65 60 (1 / 2), MouseEnter 0, MouseLeave 0]
           (fst (mouseenter 0 scenario_rehover)))) = [Some 60]"
proof -
  have ty: "node_type scenario_node \<noteq> TypeTitle" by (simp add: scenario_node_def)
  have o: "originalR scenario_node = None" by (simp add: scenario_node_def createAlbumNode_def)
  have r: "node_r scenario_node \<noteq> 0" by (simp add: scenario_node_r)
  have o0: "originalR scenario_node \<noteq> Some 0" by (simp add: o)
  note t1 = hover_round_trip [OF scenario_world_0 ty r o0]
  let ?n2 = "scenario_node\<lparr> node_r := 65, originalR := Some 60 \<rparr>"
  have ty2: "node_type ?n2 \<noteq> TypeTitle" using ty by simp
  have r2: "node_r ?n2 \<noteq> 0" by simp
  have o2: "originalR ?n2 \<noteq> Some 0" by simp
  note t2 = hover_round_trip [OF scenario_rehover_0 ty2 r2 o2]
  have l1: "length (nodeGroup (fst (mouseenter 0 scenario_world))) = 1"
    using length_step [of "MouseEnter 0" scenario_world] length_scenario_world by simp
  have l2: "length (nodeGroup (fst (mouseenter 0 scenario_rehover))) = 1"
    using length_step [of "MouseEnter 0" scenario_rehover] length_scenario_rehover by simp
  have n1: "map node_r (nodes_of (fst (mouseenter 0 scenario_world))) = [60]"
    using singleton_nth_opt [OF l1] t1 scenario_node_r
    by (simp add: fst_mouseleave nodes_of_def o)
  have n2: "map node_r (nodes_of (fst (mouseenter 0 scenario_rehover))) = [65]"
    using singleton_nth_opt [OF l2] t2
    by (simp add: fst_mouseleave nodes_of_def)
  have a1: "map (originalR \<circ> fst)
        (nodeGroup (fst (mouseleave 0 (fst (mouseenter 0 scenario_world))))) = [Some 60]"
    using singleton_nth_opt [OF l1] t1 scenario_node_r by (simp add: fst_mouseleave o)
  have b1: "map node_r (nodes_of (tr_tween (hd (snd (mouseleave 0 (fst (mouseenter 0 scenario_world)))))
        scenario_world 1 (fst (mouseenter 0 scenario_world)))) = [60]"
    using t1 [THEN conjunct2, THEN conjunct2, THEN conjunct2, THEN conjunct2, THEN conjunct1,
        rule_format, of scenario_world "fst (mouseenter 0 scenario_world)"] n1 scenario_node_r
    by (simp add: o)
  have c2: "map node_r (nodes_of scenario_rehover) = [65]"
    using singleton_nth_opt [OF length_scenario_rehover scenario_rehover_0]
    by (simp add: nodes_of_def)
  have d2: "map (originalR \<circ> fst) (nodeGroup scenario_rehover) = [Some 60]"
    using singleton_nth_opt [OF length_scenario_rehover scenario_rehover_0] by simp
  have a2: "map (originalR \<circ> fst)
        (nodeGroup (fst (mouseleave 0 (fst (mouseenter 0 scenario_rehover))))) = [Some 60]"
    using singleton_nth_opt [OF l2] t2 by (simp add: fst_mouseleave)
  have e2: "map node_r (nodes_of (tr_tween (hd (snd (mouseleave 0 (fst (mouseenter 0 scenario_rehover)))))
        scenario_rehover (1 / 2) (fst (mouseenter 0 scenario_rehover)))) = [125 / 2]"
    using t2 [THEN conjunct2, THEN conjunct2, THEN conjunct2, THEN conjunct1,
        rule_format, of scenario_rehover "1 / 2" "fst (mouseenter 0 scenario_rehover)"] n2
    by (simp add: interpolate_def)
  have b2: "map node_r (nodes_of (tr_tween (hd (snd (mouseleave 0 (fst (mouseenter 0 scenario_rehover)))))
        scenario_rehover 1 (fst (mouseenter 0 scenario_rehover)))) = [60]"
    using t2 [THEN conjunct2, THEN conjunct2, THEN conjunct2, THEN conjunct2, THEN conjunct1,
        rule_format, of scenario_rehover "fst (mouseenter 0 scenario_rehover)"] n2
    by simp
  let ?evs = "[MouseLeave 0, RadiusFrame 0 65 60 (1 / 2), MouseEnter 0, MouseLeave 0]"
  have l3: "length (nodeGroup (run ?evs (fst (mouseenter 0 scenario_rehover)))) = 1"
    using l2 by simp
  obtain d' g' where
    "nth_opt (nodeGroup (run ?evs (fst (mouseenter 0 scenario_rehover)))) 0 = Some (d', g')"
    "originalR d' = Some 60"
    using t2 [THEN conjunct2, THEN conjunct2, THEN conjunct2, THEN conjunct2, THEN conjunct2,
        THEN conjunct2, rule_format, of ?evs]
    by auto
  then have f2: "map (originalR \<circ> fst)
        (nodeGroup (run ?evs (fst (mouseenter 0 scenario_rehover)))) = [Some 60]"
    using singleton_nth_opt [OF l3] by simp
  show ?thesis
    using scenario_world_0 ty o scenario_node_r a1 b1 c2 d2 a2 e2 b2 f2 by blast
qed


lemma createAlbumNode_r_eq:
  assumes "0 \<le> u" "u < 1"
  shows "node_r (createAlbumNode toString album grp u) = nodeSize_album + randomDelta u"
  using randomDelta_bounds [OF assms]
  by (simp add: createAlbumNode_def Let_def config_defs)

text \<open>
  Claim C10. When the pointer leaves a node that was never hovered (no \<open>originalR\<close>),
  the transition that \<open>mouseleave\<close> returns runs the frames of the tween from the node's
  radius to the base constant of its kind, 50 for an album and 60 otherwise: its frame
  at time \<open>t\<close> writes the interpolated radius and its last frame leaves the node with the
  base constant. An album node built from a draw \<open>u\<close> has radius \<open>50 + randomDelta u\<close>,
  so its radius after that last frame differs from the constructed radius exactly when
  the delta is not zero, and there is such a draw.
\<close>

theorem leave_without_hover:
  assumes "nth_opt (nodeGroup w) j = Some (d, g)" and "originalR d = None"
    and "node_type d \<noteq> TypeTitle"
  shows "leave_targetSize d = (if node_type d = TypeAlbum then 50 else 60)
       \<and> (\<exists>rest. mouseleave j w =
             (w, radius_transition j
                   (interpolate (node_r d) (if node_type d = TypeAlbum then 50 else 60)) # rest))
       \<and> (\<forall>w0 t w'.
             tr_tween (hd (snd (mouseleave j w))) w0 t w' =
               radius_frame j
                 (interpolate (node_r d) (if node_type d = TypeAlbum then 50 else 60)) t w')
       \<and> (\<forall>w0 t w'.
             map node_r (nodes_of (tr_tween (hd (snd (mouseleave j w))) w0 t w')) =
             (map node_r (nodes_of w'))
               [j := interpolate (node_r d) (if node_type d = TypeAlbum then 50 else 60) t])
       \<and> (\<forall>w0.
             map node_r (nodes_of (tr_tween (hd (snd (mouseleave j w))) w0 1 (fst (mouseleave j w)))) =
             (map node_r (nodes_of w))[j := (if node_type d = TypeAlbum then 50 else 60)])
       \<and> (\<forall>w0.
             map node_r (nodes_of (tr_tween (hd (snd (mouseleave j w))) w0 1 (fst (mouseleave j w)))) ! j
               = (if node_type d = TypeAlbum then 50 else 60))
       \<and> (\<forall>w0 u. 0 \<le> u \<and> u < 1 \<and> d = createAlbumNode toString album grp u \<longrightarrow>
             node_r d = 50 + randomDelta u
             \<and> (map node_r
                   (nodes_of (tr_tween (hd (snd (mouseleave j w))) w0 1 (fst (mouseleave j w)))) ! j
                   \<noteq> node_r d)
                 = (randomDelta u \<noteq> 0))
       \<and> (\<forall>u. 0 \<le> u \<and> u < 1 \<longrightarrow>
             originalR (createAlbumNode toString album grp u) = None
             \<and> node_r (createAlbumNode toString album grp u) = 50 + randomDelta u
             \<and> leave_targetSize (createAlbumNode toString album grp u) = 50
             \<and> (leave_targetSize (createAlbumNode toString album grp u) \<noteq> node_r (createAlbumNode toString album grp u))
                 = (randomDelta u \<noteq> 0))
       \<and> (\<exists>u. 0 \<le> u \<and> u < 1 \<and> randomDelta u \<noteq> 0
             \<and> leave_targetSize (createAlbumNode toString album grp u) \<noteq> node_r (createAlbumNode toString album grp u))"
proof -
  define base :: real where "base = (if node_type d = TypeAlbum then 50 else 60)"
  have tg: "leave_targetSize d = base"
    using assms(2)
    by (simp add: base_def leave_targetSize_def nodeSize_album_def nodeSize_artist_def)
  have ml0: "mouseleave j w = handleNodeLeave j w"
    by (rule mouseleave_Some [OF assms(1,3)])
  have ml: "\<exists>rest. mouseleave j w = (w, radius_transition j (interpolate (node_r d) base) # rest)"
    using assms(1) tg by (simp add: ml0 handleNodeLeave_def Let_def)
  have h: "hd (snd (mouseleave j w)) = radius_transition j (interpolate (node_r d) base)"
    using hd_handleNodeLeave [OF assms(1)] tg by (simp add: ml0)
  have f1: "\<forall>w0 t w'. tr_tween (hd (snd (mouseleave j w))) w0 t w' =
               radius_frame j (interpolate (node_r d) base) t w'"
    by (simp add: h radius_transition_def)
  have f2: "\<forall>w0 t w'. map node_r (nodes_of (tr_tween (hd (snd (mouseleave j w))) w0 t w')) =
             (map node_r (nodes_of w'))[j := interpolate (node_r d) base t]"
    by (simp add: f1 radius_frame_r)
  have f3: "\<forall>w0. map node_r
               (nodes_of (tr_tween (hd (snd (mouseleave j w))) w0 1 (fst (mouseleave j w)))) =
             (map node_r (nodes_of w))[j := base]"
    by (simp add: f2 fst_mouseleave)
  have len: "j < length (map node_r (nodes_of w))"
    using assms(1) by (simp add: nth_opt_def nodes_of_def split: if_splits)
  have f4: "\<forall>w0. map node_r
               (nodes_of (tr_tween (hd (snd (mouseleave j w))) w0 1 (fst (mouseleave j w)))) ! j
             = base"
    using len by (simp add: f3)
  have al: "originalR (createAlbumNode toString album grp u) = None
             \<and> node_r (createAlbumNode toString album grp u) = 50 + randomDelta u
             \<and> leave_targetSize (createAlbumNode toString album grp u) = 50
             \<and> (leave_targetSize (createAlbumNode toString album grp u) \<noteq> node_r (createAlbumNode toString album grp u))
                 = (randomDelta u \<noteq> 0)"
    if "0 \<le> u \<and> u < 1" for u
  proof -
    have o: "originalR (createAlbumNode toString album grp u) = None"
      by (simp add: createAlbumNode_def)
    have r: "node_r (createAlbumNode toString album grp u) = 50 + randomDelta u"
      using createAlbumNode_r_eq [of u toString album grp] that by (simp add: nodeSize_album_def)
    have t: "leave_targetSize (createAlbumNode toString album grp u) = 50"
      using o by (simp add: leave_targetSize_def nodeSize_album_def)
    show ?thesis using o r t by simp
  qed
  have f5: "\<forall>w0 u. 0 \<le> u \<and> u < 1 \<and> d = createAlbumNode toString album grp u \<longrightarrow>
             node_r d = 50 + randomDelta u
             \<and> (map node_r
                   (nodes_of (tr_tween (hd (snd (mouseleave j w))) w0 1 (fst (mouseleave j w)))) ! j
                   \<noteq> node_r d)
                 = (randomDelta u \<noteq> 0)"
  proof (intro allI impI)
    fix w0 u
    assume a: "0 \<le> u \<and> u < 1 \<and> d = createAlbumNode toString album grp u"
    then have "node_type d = TypeAlbum" by simp
    then have b: "base = 50" by (simp add: base_def)
    have r: "node_r d = 50 + randomDelta u" using al [of u] a by simp
    show "node_r d = 50 + randomDelta u
             \<and> (map node_r
                   (nodes_of (tr_tween (hd (snd (mouseleave j w))) w0 1 (fst (mouseleave j w)))) ! j
                   \<noteq> node_r d)
                 = (randomDelta u \<noteq> 0)"
      using f4 b r by auto
  qed
  have "(0::real) \<le> 3 / 4 \<and> (3 / 4 :: real) < 1" by simp
  from al [OF this] have ex: "\<exists>u. 0 \<le> u \<and> u < 1 \<and> randomDelta u \<noteq> 0
             \<and> leave_targetSize (createAlbumNode toString album grp u) \<noteq> node_r (createAlbumNode toString album grp u)"
    by (intro exI [of _ "3 / 4"]) (simp add: randomDelta_def nodeSize_maxDelta_def)
  show ?thesis
    unfolding base_def [symmetric] using tg ml f1 f2 f3 f4 f5 al ex by blast
qed

theorem leave_without_hover_witness:
  "nth_opt (nodeGroup scenario_world) 0 = Some (scenario_node, new_g scenario_node)
   \<and> originalR scenario_node = None \<and> node_type scenario_node = TypeAlbum
   \<and> scenario_node = createAlbumNode scenario_toString (scenario_album 1) (hd scenario_groups) (3 / 4)
   \<and> randomDelta (3 / 4) = 10
   \<and> map node_r (nodes_of scenario_world) = [60]
   \<and> leave_targetSize scenario_node = 50
   \<and> map node_r (nodes_of (tr_tween (hd (snd (mouseleave 0 scenario_world))) scenario_world (1 / 2)
        (fst (mouseleave 0 scenario_world)))) = [55]
   \<and> map node_r (nodes_of (tr_tween (hd (snd (mouseleave 0 scenario_world))) scenario_world 1
        (fst (mouseleave 0 scenario_world)))) = [50]
   \<and> map node_r (nodes_of (tr_tween (hd (snd (mouseleave 0 scenario_world))) scenario_world 1
        (fst (mouseleave 0 scenario_world)))) ! 0 \<noteq> node_r scenario_node"
proof -
  have ty: "node_type scenario_node \<noteq> TypeTitle" by (simp add: scenario_node_def)
  have ty': "node_type scenario_node = TypeAlbum" by (simp add: scenario_node_def)
  have o: "originalR scenario_node = None" by (simp add: scenario_node_def createAlbumNode_def)
  note t = leave_without_hover [where toString = scenario_toString and album = "scenario_album 1"
      and grp = "hd scenario_groups",
      OF scenario_world_0 o ty]
  have n: "map node_r (nodes_of scenario_world) = [60]"
    by (simp add: nodes_of_def scenario_world_def scenario_node_r)
  have d: "randomDelta (3 / 4) = 10" by (simp add: randomDelta_def nodeSize_maxDelta_def)
  have a: "leave_targetSize scenario_node = 50"
    using t [THEN conjunct1] ty' by simp
  have h: "map node_r (nodes_of (tr_tween (hd (snd (mouseleave 0 scenario_world))) scenario_world
        (1 / 2) (fst (mouseleave 0 scenario_world)))) = [55]"
    using t [THEN conjunct2, THEN conjunct2, THEN conjunct2, THEN conjunct1, rule_format,
        of scenario_world "1 / 2" "fst (mouseleave 0 scenario_world)"] n ty' scenario_node_r
    by (simp add: fst_mouseleave interpolate_def)
  have b: "map node_r (nodes_of (tr_tween (hd (snd (mouseleave 0 scenario_world))) scenario_world 1
        (fst (mouseleave 0 scenario_world)))) = [50]"
    using t [THEN conjunct2, THEN conjunct2, THEN conjunct2, THEN conjunct2, THEN conjunct1,
        rule_format, of scenario_world] n ty'
    by simp
  have c: "map node_r (nodes_of (tr_tween (hd (snd (mouseleave 0 scenario_world))) scenario_world 1
        (fst (mouseleave 0 scenario_world)))) ! 0 \<noteq> node_r scenario_node"
    using b scenario_node_r by simp
  show ?thesis using scenario_world_0 o ty' d n a h b c scenario_node_def by blast
qed

end
